theory Spec2Isabelle
  imports Main "HOL-Library.Word"
begin

section \<open>Machine types and the process environment\<close>

text \<open>
  The daemon is C: \<open>uint8_t\<close>, \<open>uint16_t\<close> and \<open>int\<close> are words of 8, 16 and 32
  bits. A conversion from \<open>int\<close> to \<open>uint16_t\<close> is \<open>ucast\<close> (it keeps the low 16
  bits); \<open>sint\<close> reads an \<open>int\<close>, \<open>uint\<close> reads an unsigned value after the integer
  promotion of a comparison.
\<close>

type_synonym uint8_t = "8 word"
type_synonym uint16_t = "16 word"
type_synonym c_int = "32 word"

text \<open>
  The two key arrays of the engine's \<open>DHT\<close> structure that this file touches. Their sizes,
  \<open>crypto_box_PUBLICKEYBYTES\<close> and \<open>crypto_box_SECRETKEYBYTES\<close>, are macros of the
  cryptography library's header; the functions below take them as parameters.
\<close>

record DHT =
  self_public_key :: "uint8_t list"
  self_secret_key :: "uint8_t list"

text \<open>
  The files \<open>manage_keys\<close> sees. \<open>files\<close> maps a path to the bytes of the file there
  (\<open>None\<close>: \<open>fopen(path, "r")\<close> returns \<open>NULL\<close>). \<open>fopen_w_ok\<close> says whether
  \<open>fopen(path, "w")\<close> succeeds. A stream is buffered, so writing has two limits:
  \<open>fwrite_limit\<close> is how many bytes an \<open>fwrite\<close> to that path takes before it comes up
  short, which is what \<open>fwrite\<close> returns; \<open>flush_limit\<close> is how many of the bytes taken
  reach the file by the time \<open>fclose\<close> has flushed the stream. \<open>fclose\<close> reports a
  flush that falls short, but no call of \<open>fclose\<close> in this file looks at its result.
\<close>

record filesystem =
  files :: "string \<rightharpoonup> uint8_t list"
  fopen_w_ok :: "string \<Rightarrow> bool"
  fwrite_limit :: "string \<Rightarrow> nat"
  flush_limit :: "string \<Rightarrow> nat"

section \<open>manage_keys\<close>

text \<open>
  \<open>fread(keys, 1, KEYS_SIZE, f)\<close> stores the first \<open>KEYS_SIZE\<close> bytes of the file, or all
  of it when it is shorter, and returns how many it stored. \<open>fwrite\<close> takes a prefix of
  the buffer into the stream and returns its length, the only thing the function tests;
  both paths after a successful \<open>fopen(path, "w")\<close> end in \<open>fclose\<close>, which leaves in
  the file the bytes of the stream that the flush could store. The result is the C return
  value together with the \<open>DHT\<close> and the files as the call leaves them.
\<close>

definition manage_keys ::
  "nat \<Rightarrow> nat \<Rightarrow> DHT \<Rightarrow> string \<Rightarrow> filesystem \<Rightarrow> int \<times> DHT \<times> filesystem" where
  "manage_keys crypto_box_PUBLICKEYBYTES crypto_box_SECRETKEYBYTES dht keys_file_path fs =
    (let KEYS_SIZE = crypto_box_PUBLICKEYBYTES + crypto_box_SECRETKEYBYTES in
     case files fs keys_file_path of
       Some contents \<Rightarrow>
         (let keys = take KEYS_SIZE contents;
              read_size = length keys
          in if read_size \<noteq> KEYS_SIZE then (0, dht, fs)
             else (1,
                   dht\<lparr>self_public_key := take crypto_box_PUBLICKEYBYTES keys,
                       self_secret_key :=
                         take crypto_box_SECRETKEYBYTES (drop crypto_box_PUBLICKEYBYTES keys)\<rparr>,
                   fs))
     | None \<Rightarrow>
         (let keys = take crypto_box_PUBLICKEYBYTES (self_public_key dht)
                     @ take crypto_box_SECRETKEYBYTES (self_secret_key dht)
          in if \<not> fopen_w_ok fs keys_file_path then (0, dht, fs)
             else
               (let written = take (fwrite_limit fs keys_file_path) (take KEYS_SIZE keys);
                    write_size = length written;
                    stored = take (flush_limit fs keys_file_path) written;
                    fs' = fs\<lparr>files := (files fs)(keys_file_path \<mapsto> stored)\<rparr>
                in if write_size \<noteq> KEYS_SIZE then (0, dht, fs') else (1, dht, fs'))))"

section \<open>Logging\<close>

text \<open>
  \<open>write_log(level, format, ...)\<close> appends one line to the log. A line is kept as its
  level and a constructor that stands for the format string, applied to the arguments the
  call passes.
\<close>

datatype LOG_LEVEL = LOG_LEVEL_INFO | LOG_LEVEL_WARNING | LOG_LEVEL_ERROR

datatype log_message =
    Config_read_error string
      \<comment> \<open>\<open>"%s:%d - %s"\<close>: the library's error file, line and text, here the path\<close>
  | No_setting_in_configuration_file string
      \<comment> \<open>\<open>"No '%s' setting in configuration file."\<close>\<close>
  | No_setting_in_the_configuration_file string
      \<comment> \<open>\<open>"No '%s' setting in the configuration file."\<close>\<close>
  | Using_default_int string int
      \<comment> \<open>\<open>"Using default '%s': %d"\<close>\<close>
  | Using_default_str string string
      \<comment> \<open>\<open>"Using default '%s': %s"\<close>\<close>
  | Using_default_list string
      \<comment> \<open>\<open>"Using default '%s':"\<close>\<close>
  | Port_number nat int
      \<comment> \<open>\<open>"Port #%d: %u"\<close>\<close>
  | Port_invalid nat int
      \<comment> \<open>\<open>"Port #%d: Invalid port: %u, should be in [%d, %d]. Skipping."\<close>\<close>
  | Setting_should_be_an_array string
      \<comment> \<open>\<open>"'%s' setting should be an array. Array syntax: ..."\<close>\<close>
  | Setting_is_empty string
      \<comment> \<open>\<open>"'%s' is empty."\<close>\<close>
  | Port_parsing_stopped nat
      \<comment> \<open>\<open>"Port #%d: Something went wrong while parsing the port. Stopping reading ports."\<close>\<close>
  | Port_not_a_number nat
      \<comment> \<open>\<open>"Port #%d: Not a number. Skipping."\<close>\<close>
  | Successfully_read
      \<comment> \<open>\<open>"Successfully read:"\<close>\<close>
  | Read_str string string
      \<comment> \<open>\<open>"'%s': %s"\<close>\<close>
  | Read_int string int
      \<comment> \<open>\<open>"'%s': %d"\<close>\<close>
  | No_TCP_ports_could_be_read
      \<comment> \<open>\<open>"No TCP ports could be read."\<close>\<close>
  | Read_TCP_ports nat
      \<comment> \<open>\<open>"Read %d TCP ports:"\<close>\<close>
  | No_bootstrap_nodes_setting string
      \<comment> \<open>\<open>"No '%s' setting in the configuration file. Skipping bootstrapping."\<close>\<close>
  | No_bootstrap_nodes_found
      \<comment> \<open>\<open>"No bootstrap nodes found. Skipping bootstrapping."\<close>\<close>
  | Node_setting_not_found nat string
      \<comment> \<open>\<open>"Bootstrap node #%d: Couldn't find '%s' setting. Skipping the node."\<close>\<close>
  | Node_invalid_str nat string string
      \<comment> \<open>\<open>"Bootstrap node #%d: Invalid '%s': %s. Skipping the node."\<close>\<close>
  | Node_invalid_port nat string int
      \<comment> \<open>\<open>"Bootstrap node #%d: Invalid '%s': %d, should be in [%d, %d]. Skipping the node."\<close>\<close>
  | Node_added nat string int string
      \<comment> \<open>\<open>"Successfully added bootstrap node #%d: %s:%d %s"\<close>\<close>
  | Running_version string nat
      \<comment> \<open>\<open>"Running \"%s\" version %lu."\<close>\<close>
  | General_config_read_successfully
  | Couldnt_read_config_file string
      \<comment> \<open>\<open>"Couldn't read config file: %s. Exiting."\<close>\<close>
  | Invalid_port int
      \<comment> \<open>\<open>"Invalid port: %d, should be in [%d, %d]. Exiting."\<close>\<close>
  | Another_instance_running string
      \<comment> \<open>\<open>"Another instance of the daemon is already running, PID file %s exists."\<close>\<close>
  | Falling_back_to_IPv4
      \<comment> \<open>\<open>"Couldn't initialize IPv6 networking. Falling back to using IPv4."\<close>\<close>
  | Couldnt_fallback_to_IPv4
      \<comment> \<open>\<open>"Couldn't fallback to IPv4. Exiting."\<close>\<close>
  | Couldnt_initialize_networking
      \<comment> \<open>\<open>"Couldn't initialize networking. Exiting."\<close>\<close>
  | Couldnt_initialize_DHT
      \<comment> \<open>\<open>"Couldn't initialize Tox DHT instance. Exiting."\<close>\<close>
  | Couldnt_initialize_Onion
      \<comment> \<open>\<open>"Couldn't initialize Tox Onion. Exiting."\<close>\<close>
  | Set_MOTD_successfully
  | Couldnt_set_MOTD string
      \<comment> \<open>\<open>"Couldn't set MOTD: %s. Exiting."\<close>\<close>
  | Keys_are_managed_successfully
  | Couldnt_read_write string
      \<comment> \<open>\<open>"Couldn't read/write: %s. Exiting."\<close>\<close>
  | No_TCP_relay_ports_read
      \<comment> \<open>\<open>"No TCP relay ports read. Exiting."\<close>\<close>
  | Initialized_TCP_server_successfully
  | Couldnt_initialize_TCP_server
      \<comment> \<open>\<open>"Couldn't initialize Tox TCP server. Exiting."\<close>\<close>
  | Bootstrap_nodes_read_successfully
      \<comment> \<open>\<open>"List of bootstrap nodes read successfully."\<close>\<close>
  | Couldnt_read_bootstrap_nodes string
      \<comment> \<open>\<open>"Couldn't read list of bootstrap nodes in %s. Exiting."\<close>\<close>
  | Public_Key "uint8_t list"
      \<comment> \<open>\<open>"Public Key: %s"\<close>, the key printed in hexadecimal\<close>
  | Couldnt_open_PID_file string
      \<comment> \<open>\<open>"Couldn't open the PID file for writing: %s. Exiting."\<close>\<close>
  | Forked_successfully int
      \<comment> \<open>\<open>"Forked successfully: PID: %d."\<close>\<close>
  | Forking_failed
      \<comment> \<open>\<open>"Forking failed. Exiting."\<close>\<close>
  | SID_creation_failure
      \<comment> \<open>\<open>"SID creation failure. Exiting."\<close>\<close>
  | Couldnt_change_working_directory
      \<comment> \<open>\<open>"Couldn't change working directory to '/'. Exiting."\<close>\<close>
  | Initialized_LAN_discovery
  | Connected_to_other_bootstrap_node
      \<comment> \<open>\<open>"Connected to other bootstrap node successfully."\<close>\<close>

type_synonym log = "(LOG_LEVEL \<times> log_message) list"

definition true_false :: "bool \<Rightarrow> string" where
  "true_false b = (if b then ''true'' else ''false'')"

section \<open>The configuration library\<close>

text \<open>
  The settings file is parsed by a third-party library. A parsed setting is a scalar, an
  array, a list or a group of named settings; the configuration itself is the members of
  the root group. 64-bit integer settings are left out. The functions below are the
  library calls the daemon makes, with the results the library's manual gives them: a
  typed lookup fails (\<open>CONFIG_FALSE\<close>, here \<open>None\<close>) when the setting is missing or
  has another type; the length of a scalar is 0; \<open>config_setting_get_int\<close> of a setting
  that is not an integer is 0.
\<close>

datatype config_setting_t =
    CONFIG_TYPE_INT c_int
  | CONFIG_TYPE_FLOAT
  | CONFIG_TYPE_BOOL bool
  | CONFIG_TYPE_STRING string
  | CONFIG_TYPE_ARRAY "config_setting_t list"
  | CONFIG_TYPE_LIST "config_setting_t list"
  | CONFIG_TYPE_GROUP "(string \<times> config_setting_t) list"

type_synonym config_t = "(string \<times> config_setting_t) list"

definition config_lookup :: "config_t \<Rightarrow> string \<Rightarrow> config_setting_t option" where
  "config_lookup cfg name = map_of cfg name"

definition config_lookup_int :: "config_t \<Rightarrow> string \<Rightarrow> c_int option" where
  "config_lookup_int cfg name =
    (case config_lookup cfg name of Some (CONFIG_TYPE_INT v) \<Rightarrow> Some v | _ \<Rightarrow> None)"

definition config_lookup_bool :: "config_t \<Rightarrow> string \<Rightarrow> bool option" where
  "config_lookup_bool cfg name =
    (case config_lookup cfg name of Some (CONFIG_TYPE_BOOL b) \<Rightarrow> Some b | _ \<Rightarrow> None)"

definition config_lookup_string :: "config_t \<Rightarrow> string \<Rightarrow> string option" where
  "config_lookup_string cfg name =
    (case config_lookup cfg name of Some (CONFIG_TYPE_STRING s) \<Rightarrow> Some s | _ \<Rightarrow> None)"

fun config_setting_is_array :: "config_setting_t \<Rightarrow> bool" where
  "config_setting_is_array (CONFIG_TYPE_ARRAY _) = True"
| "config_setting_is_array _ = False"

fun config_setting_is_number :: "config_setting_t \<Rightarrow> bool" where
  "config_setting_is_number (CONFIG_TYPE_INT _) = True"
| "config_setting_is_number CONFIG_TYPE_FLOAT = True"
| "config_setting_is_number _ = False"

fun config_setting_get_int :: "config_setting_t \<Rightarrow> c_int" where
  "config_setting_get_int (CONFIG_TYPE_INT v) = v"
| "config_setting_get_int _ = 0"

fun config_setting_elems :: "config_setting_t \<Rightarrow> config_setting_t list" where
  "config_setting_elems (CONFIG_TYPE_ARRAY xs) = xs"
| "config_setting_elems (CONFIG_TYPE_LIST xs) = xs"
| "config_setting_elems (CONFIG_TYPE_GROUP ms) = map snd ms"
| "config_setting_elems _ = []"

definition config_setting_length :: "config_setting_t \<Rightarrow> nat" where
  "config_setting_length s = length (config_setting_elems s)"

definition config_setting_get_elem :: "config_setting_t \<Rightarrow> nat \<Rightarrow> config_setting_t option" where
  "config_setting_get_elem s i =
    (if i < length (config_setting_elems s) then Some (config_setting_elems s ! i) else None)"

fun config_setting_remove_elem :: "config_setting_t \<Rightarrow> nat \<Rightarrow> config_setting_t" where
  "config_setting_remove_elem (CONFIG_TYPE_ARRAY xs) i = CONFIG_TYPE_ARRAY (take i xs @ drop (Suc i) xs)"
| "config_setting_remove_elem (CONFIG_TYPE_LIST xs) i = CONFIG_TYPE_LIST (take i xs @ drop (Suc i) xs)"
| "config_setting_remove_elem (CONFIG_TYPE_GROUP ms) i = CONFIG_TYPE_GROUP (take i ms @ drop (Suc i) ms)"
| "config_setting_remove_elem s i = s"

fun config_setting_lookup_string :: "config_setting_t \<Rightarrow> string \<Rightarrow> string option" where
  "config_setting_lookup_string (CONFIG_TYPE_GROUP ms) name =
    (case map_of ms name of Some (CONFIG_TYPE_STRING s) \<Rightarrow> Some s | _ \<Rightarrow> None)"
| "config_setting_lookup_string _ name = None"

fun config_setting_lookup_int :: "config_setting_t \<Rightarrow> string \<Rightarrow> c_int option" where
  "config_setting_lookup_int (CONFIG_TYPE_GROUP ms) name =
    (case map_of ms name of Some (CONFIG_TYPE_INT v) \<Rightarrow> Some v | _ \<Rightarrow> None)"
| "config_setting_lookup_int _ name = None"

section \<open>Defaults and limits\<close>

definition DEFAULT_PID_FILE_PATH :: string where
  "DEFAULT_PID_FILE_PATH = ''tox-bootstrapd.pid''"

definition DEFAULT_KEYS_FILE_PATH :: string where
  "DEFAULT_KEYS_FILE_PATH = ''tox-bootstrapd.keys''"

definition DEFAULT_PORT :: c_int where
  "DEFAULT_PORT = 33445"

definition DEFAULT_ENABLE_IPV6 :: bool where
  "DEFAULT_ENABLE_IPV6 = True"

definition DEFAULT_ENABLE_IPV4_FALLBACK :: bool where
  "DEFAULT_ENABLE_IPV4_FALLBACK = True"

definition DEFAULT_ENABLE_LAN_DISCOVERY :: bool where
  "DEFAULT_ENABLE_LAN_DISCOVERY = True"

definition DEFAULT_ENABLE_TCP_RELAY :: bool where
  "DEFAULT_ENABLE_TCP_RELAY = True"

definition DEFAULT_TCP_RELAY_PORTS :: "uint16_t list" where
  "DEFAULT_TCP_RELAY_PORTS = [443, 3389, 33445]"

definition DEFAULT_TCP_RELAY_PORTS_COUNT :: nat where
  "DEFAULT_TCP_RELAY_PORTS_COUNT = 3"

definition DEFAULT_ENABLE_MOTD :: bool where
  "DEFAULT_ENABLE_MOTD = True"

definition MIN_ALLOWED_PORT :: int where
  "MIN_ALLOWED_PORT = 1"

definition MAX_ALLOWED_PORT :: int where
  "MAX_ALLOWED_PORT = 65535"

section \<open>parse_tcp_relay_ports_config\<close>

abbreviation NAME_TCP_RELAY_PORTS :: string where
  "NAME_TCP_RELAY_PORTS \<equiv> ''tcp_relay_ports''"

text \<open>
  The body both loops of \<open>parse_tcp_relay_ports_config\<close> share: the value, already
  converted to \<open>uint16_t\<close>, is stored at index \<open>tcp_relay_port_count\<close> of the array, the
  stored element is compared with the two bounds, and the count moves on only when the
  element is inside them. A rejected element stays in the array until the next store
  overwrites it. The count grows at most once for each element looked at, so the index is
  always inside the array.
\<close>

definition store_port ::
  "nat \<Rightarrow> uint16_t \<Rightarrow> uint16_t list \<times> nat \<times> log \<Rightarrow> uint16_t list \<times> nat \<times> log" where
  "store_port i v st =
    (case st of (tcp_relay_ports, tcp_relay_port_count, lg) \<Rightarrow>
      (let tcp_relay_ports' = tcp_relay_ports[tcp_relay_port_count := v] in
       if uint (tcp_relay_ports' ! tcp_relay_port_count) < MIN_ALLOWED_PORT
          \<or> uint (tcp_relay_ports' ! tcp_relay_port_count) > MAX_ALLOWED_PORT
       then (tcp_relay_ports', tcp_relay_port_count,
             lg @ [(LOG_LEVEL_WARNING,
                    Port_invalid i (uint (tcp_relay_ports' ! tcp_relay_port_count)))])
       else (tcp_relay_ports', tcp_relay_port_count + 1, lg)))"

text \<open>
  The loop over the elements of the configured array, from index \<open>i\<close>. A missing element
  ends the loop (\<open>break\<close>); an element that is not a number is skipped; the \<open>int\<close> of any
  other element is converted to \<open>uint16_t\<close> by the assignment and stored.
\<close>

function ports_loop ::
  "config_setting_t \<Rightarrow> nat \<Rightarrow> nat \<Rightarrow> uint16_t list \<times> nat \<times> log
     \<Rightarrow> uint16_t list \<times> nat \<times> log" where
  "ports_loop ports_array config_port_count i st =
    (if i < config_port_count then
       (case config_setting_get_elem ports_array i of
          None \<Rightarrow>
            (case st of (tcp_relay_ports, tcp_relay_port_count, lg) \<Rightarrow>
               (tcp_relay_ports, tcp_relay_port_count,
                lg @ [(LOG_LEVEL_WARNING, Port_parsing_stopped i)]))
        | Some elem \<Rightarrow>
            if \<not> config_setting_is_number elem
            then
              (case st of (tcp_relay_ports, tcp_relay_port_count, lg) \<Rightarrow>
                 ports_loop ports_array config_port_count (i + 1)
                   (tcp_relay_ports, tcp_relay_port_count,
                    lg @ [(LOG_LEVEL_WARNING, Port_not_a_number i)]))
            else
              ports_loop ports_array config_port_count (i + 1)
                (store_port i (ucast (config_setting_get_int elem)) st))
     else st)"
  by pat_completeness auto
termination
  by (relation "measure (\<lambda>(ports_array, config_port_count, i, st). config_port_count - i)") auto

declare ports_loop.simps [simp del]

text \<open>
  After either loop the array is cut to the ports kept (\<open>realloc\<close>), or freed and set to
  \<open>NULL\<close> when none was kept. An array of no elements and \<open>NULL\<close> are both \<open>[]\<close>.
\<close>

definition adjust_ports :: "uint16_t list \<times> nat \<times> log \<Rightarrow> uint16_t list \<times> nat \<times> log" where
  "adjust_ports st =
    (case st of (tcp_relay_ports, tcp_relay_port_count, lg) \<Rightarrow>
      if tcp_relay_port_count > 0
      then (take tcp_relay_port_count tcp_relay_ports, tcp_relay_port_count, lg)
      else ([], tcp_relay_port_count, lg))"

text \<open>
  The second argument is what \<open>*tcp_relay_ports\<close> holds at the call: both early returns
  leave it alone. \<open>malloc\<close> gives an array whose cells are written before they are read;
  they start as 0 here. The result is the array, the count and the lines logged.
\<close>

definition parse_tcp_relay_ports_config ::
  "config_t \<Rightarrow> uint16_t list \<Rightarrow> uint16_t list \<times> nat \<times> log" where
  "parse_tcp_relay_ports_config cfg tcp_relay_ports =
    (case config_lookup cfg NAME_TCP_RELAY_PORTS of
       None \<Rightarrow>
         (let default_ports = DEFAULT_TCP_RELAY_PORTS;
              lg = [(LOG_LEVEL_WARNING, No_setting_in_the_configuration_file NAME_TCP_RELAY_PORTS),
                    (LOG_LEVEL_WARNING, Using_default_list NAME_TCP_RELAY_PORTS)]
                   @ map (\<lambda>i. (LOG_LEVEL_INFO, Port_number i (uint (default_ports ! i))))
                       [0..<DEFAULT_TCP_RELAY_PORTS_COUNT]
          in adjust_ports
               (foldl (\<lambda>st i. store_port i (default_ports ! i) st)
                  (replicate DEFAULT_TCP_RELAY_PORTS_COUNT 0, 0, lg)
                  [0..<DEFAULT_TCP_RELAY_PORTS_COUNT]))
     | Some ports_array \<Rightarrow>
         if \<not> config_setting_is_array ports_array
         then (tcp_relay_ports, 0,
               [(LOG_LEVEL_ERROR, Setting_should_be_an_array NAME_TCP_RELAY_PORTS)])
         else
           (let config_port_count = config_setting_length ports_array in
            if config_port_count = 0
            then (tcp_relay_ports, 0, [(LOG_LEVEL_ERROR, Setting_is_empty NAME_TCP_RELAY_PORTS)])
            else adjust_ports
                   (ports_loop ports_array config_port_count 0
                      (replicate config_port_count 0, 0, []))))"

section \<open>get_general_config\<close>

abbreviation NAME_PORT :: string where "NAME_PORT \<equiv> ''port''"
abbreviation NAME_PID_FILE_PATH :: string where "NAME_PID_FILE_PATH \<equiv> ''pid_file_path''"
abbreviation NAME_KEYS_FILE_PATH :: string where "NAME_KEYS_FILE_PATH \<equiv> ''keys_file_path''"
abbreviation NAME_ENABLE_IPV6 :: string where "NAME_ENABLE_IPV6 \<equiv> ''enable_ipv6''"
abbreviation NAME_ENABLE_IPV4_FALLBACK :: string where
  "NAME_ENABLE_IPV4_FALLBACK \<equiv> ''enable_ipv4_fallback''"
abbreviation NAME_ENABLE_LAN_DISCOVERY :: string where
  "NAME_ENABLE_LAN_DISCOVERY \<equiv> ''enable_lan_discovery''"
abbreviation NAME_ENABLE_TCP_RELAY :: string where
  "NAME_ENABLE_TCP_RELAY \<equiv> ''enable_tcp_relay''"
abbreviation NAME_ENABLE_MOTD :: string where "NAME_ENABLE_MOTD \<equiv> ''enable_motd''"
abbreviation NAME_MOTD :: string where "NAME_MOTD \<equiv> ''motd''"

text \<open>
  What the out-parameters of \<open>get_general_config\<close> point to. The flags are the \<open>int\<close>s
  the library's boolean lookup fills with \<open>CONFIG_TRUE\<close> or \<open>CONFIG_FALSE\<close>. A string
  setting is the characters before its terminator; \<open>motd\<close> is the allocated buffer itself,
  terminator and all.
\<close>

record general_config =
  pid_file_path :: string
  keys_file_path :: string
  port :: c_int
  enable_ipv6 :: bool
  enable_ipv4_fallback :: bool
  enable_lan_discovery :: bool
  enable_tcp_relay :: bool
  tcp_relay_ports :: "uint16_t list"
  tcp_relay_port_count :: nat
  enable_motd :: bool
  motd :: "char list"

abbreviation NUL :: char where "NUL \<equiv> CHR 0x00"

definition strlen :: "char list \<Rightarrow> nat" where
  "strlen buf = length (takeWhile (\<lambda>c. c \<noteq> NUL) buf)"

text \<open>
  \<open>strncpy(dst, src, n)\<close> writes \<open>n\<close> characters: those of the string \<open>src\<close>, then
  \<open>NUL\<close>s when the string is shorter.
\<close>

definition strncpy :: "string \<Rightarrow> nat \<Rightarrow> char list" where
  "strncpy src n = take n (takeWhile (\<lambda>c. c \<noteq> NUL) src @ replicate n NUL)"

text \<open>
  The block of \<open>get_general_config\<close> that reads the message of the day.
  \<open>MAX_MOTD_LENGTH\<close> is a macro of the packet handler this file includes and
  \<open>DEFAULT_MOTD\<close> is the daemon's name from its global header; both are parameters. The
  macro is positive: with 0 the last assignment would fall outside the buffer.
\<close>

definition get_motd :: "nat \<Rightarrow> string \<Rightarrow> config_t \<Rightarrow> char list \<times> log" where
  "get_motd MAX_MOTD_LENGTH DEFAULT_MOTD cfg =
    (let (tmp_motd, lg) =
           (case config_lookup_string cfg NAME_MOTD of
              Some s \<Rightarrow> (s, [])
            | None \<Rightarrow>
                (DEFAULT_MOTD,
                 [(LOG_LEVEL_WARNING, No_setting_in_configuration_file NAME_MOTD),
                  (LOG_LEVEL_WARNING, Using_default_str NAME_MOTD DEFAULT_MOTD)]));
         tmp_motd_length = strlen tmp_motd + 1;
         motd_length =
           (if tmp_motd_length > MAX_MOTD_LENGTH then MAX_MOTD_LENGTH else tmp_motd_length)
     in ((strncpy tmp_motd motd_length)[motd_length - 1 := NUL], lg))"

text \<open>The lines logged at the end of a successful \<open>get_general_config\<close>.\<close>

definition report_general_config :: "general_config \<Rightarrow> log" where
  "report_general_config c =
    [(LOG_LEVEL_INFO, Successfully_read),
     (LOG_LEVEL_INFO, Read_str NAME_PID_FILE_PATH (pid_file_path c)),
     (LOG_LEVEL_INFO, Read_str NAME_KEYS_FILE_PATH (keys_file_path c)),
     (LOG_LEVEL_INFO, Read_int NAME_PORT (sint (port c))),
     (LOG_LEVEL_INFO, Read_str NAME_ENABLE_IPV6 (true_false (enable_ipv6 c))),
     (LOG_LEVEL_INFO, Read_str NAME_ENABLE_IPV4_FALLBACK (true_false (enable_ipv4_fallback c))),
     (LOG_LEVEL_INFO, Read_str NAME_ENABLE_LAN_DISCOVERY (true_false (enable_lan_discovery c))),
     (LOG_LEVEL_INFO, Read_str NAME_ENABLE_TCP_RELAY (true_false (enable_tcp_relay c)))]
    @ (if enable_tcp_relay c then
         (if tcp_relay_port_count c = 0
          then [(LOG_LEVEL_ERROR, No_TCP_ports_could_be_read)]
          else (LOG_LEVEL_INFO, Read_TCP_ports (tcp_relay_port_count c))
               # map (\<lambda>i. (LOG_LEVEL_INFO, Port_number i (uint (tcp_relay_ports c ! i))))
                   [0..<tcp_relay_port_count c])
       else [])
    @ [(LOG_LEVEL_INFO, Read_str NAME_ENABLE_MOTD (true_false (enable_motd c)))]
    @ (if enable_motd c
       then [(LOG_LEVEL_INFO, Read_str NAME_MOTD (takeWhile (\<lambda>c. c \<noteq> NUL) (motd c)))]
       else [])"

text \<open>
  \<open>config_read_file\<close> is the library's parser: the members of the root group, or
  \<open>None\<close> when the file cannot be read or parsed. The fifth argument is what the
  out-parameters hold at the call. The result is the C return value, the out-parameters
  as the call leaves them, and the lines logged.
\<close>

definition get_general_config ::
  "(string \<Rightarrow> config_t option) \<Rightarrow> nat \<Rightarrow> string \<Rightarrow> string \<Rightarrow> general_config
     \<Rightarrow> int \<times> general_config \<times> log" where
  "get_general_config config_read_file MAX_MOTD_LENGTH DEFAULT_MOTD cfg_file_path out =
    (case config_read_file cfg_file_path of
       None \<Rightarrow> (0, out, [(LOG_LEVEL_ERROR, Config_read_error cfg_file_path)])
     | Some cfg \<Rightarrow>
        (let
           (port', lg1) =
             (case config_lookup_int cfg NAME_PORT of
                Some v \<Rightarrow> (v, [])
              | None \<Rightarrow>
                  (DEFAULT_PORT,
                   [(LOG_LEVEL_WARNING, No_setting_in_configuration_file NAME_PORT),
                    (LOG_LEVEL_WARNING, Using_default_int NAME_PORT (sint DEFAULT_PORT))]));
           (tmp_pid_file, lg2) =
             (case config_lookup_string cfg NAME_PID_FILE_PATH of
                Some s \<Rightarrow> (s, [])
              | None \<Rightarrow>
                  (DEFAULT_PID_FILE_PATH,
                   [(LOG_LEVEL_WARNING, No_setting_in_configuration_file NAME_PID_FILE_PATH),
                    (LOG_LEVEL_WARNING,
                     Using_default_str NAME_PID_FILE_PATH DEFAULT_PID_FILE_PATH)]));
           (tmp_keys_file, lg3) =
             (case config_lookup_string cfg NAME_KEYS_FILE_PATH of
                Some s \<Rightarrow> (s, [])
              | None \<Rightarrow>
                  (DEFAULT_KEYS_FILE_PATH,
                   [(LOG_LEVEL_WARNING, No_setting_in_configuration_file NAME_KEYS_FILE_PATH),
                    (LOG_LEVEL_WARNING,
                     Using_default_str NAME_KEYS_FILE_PATH DEFAULT_KEYS_FILE_PATH)]));
           (enable_ipv6', lg4) =
             (case config_lookup_bool cfg NAME_ENABLE_IPV6 of
                Some b \<Rightarrow> (b, [])
              | None \<Rightarrow>
                  (DEFAULT_ENABLE_IPV6,
                   [(LOG_LEVEL_WARNING, No_setting_in_configuration_file NAME_ENABLE_IPV6),
                    (LOG_LEVEL_WARNING,
                     Using_default_str NAME_ENABLE_IPV6 (true_false DEFAULT_ENABLE_IPV6))]));
           (enable_ipv4_fallback', lg5) =
             (case config_lookup_bool cfg NAME_ENABLE_IPV4_FALLBACK of
                Some b \<Rightarrow> (b, [])
              | None \<Rightarrow>
                  (DEFAULT_ENABLE_IPV4_FALLBACK,
                   [(LOG_LEVEL_WARNING,
                     No_setting_in_configuration_file NAME_ENABLE_IPV4_FALLBACK),
                    (LOG_LEVEL_WARNING,
                     Using_default_str NAME_ENABLE_IPV4_FALLBACK
                       (true_false DEFAULT_ENABLE_IPV4_FALLBACK))]));
           (enable_lan_discovery', lg6) =
             (case config_lookup_bool cfg NAME_ENABLE_LAN_DISCOVERY of
                Some b \<Rightarrow> (b, [])
              | None \<Rightarrow>
                  (DEFAULT_ENABLE_LAN_DISCOVERY,
                   [(LOG_LEVEL_WARNING,
                     No_setting_in_configuration_file NAME_ENABLE_LAN_DISCOVERY),
                    (LOG_LEVEL_WARNING,
                     Using_default_str NAME_ENABLE_LAN_DISCOVERY
                       (true_false DEFAULT_ENABLE_LAN_DISCOVERY))]));
           (enable_tcp_relay', lg7) =
             (case config_lookup_bool cfg NAME_ENABLE_TCP_RELAY of
                Some b \<Rightarrow> (b, [])
              | None \<Rightarrow>
                  (DEFAULT_ENABLE_TCP_RELAY,
                   [(LOG_LEVEL_WARNING, No_setting_in_configuration_file NAME_ENABLE_TCP_RELAY),
                    (LOG_LEVEL_WARNING,
                     Using_default_str NAME_ENABLE_TCP_RELAY
                       (true_false DEFAULT_ENABLE_TCP_RELAY))]));
           (tcp_relay_ports', tcp_relay_port_count', lg8) =
             (if enable_tcp_relay'
              then parse_tcp_relay_ports_config cfg (tcp_relay_ports out)
              else (tcp_relay_ports out, 0, []));
           (enable_motd', lg9) =
             (case config_lookup_bool cfg NAME_ENABLE_MOTD of
                Some b \<Rightarrow> (b, [])
              | None \<Rightarrow>
                  (DEFAULT_ENABLE_MOTD,
                   [(LOG_LEVEL_WARNING, No_setting_in_configuration_file NAME_ENABLE_MOTD),
                    (LOG_LEVEL_WARNING,
                     Using_default_str NAME_ENABLE_MOTD (true_false DEFAULT_ENABLE_MOTD))]));
           (motd', lg10) =
             (if enable_motd' then get_motd MAX_MOTD_LENGTH DEFAULT_MOTD cfg
              else (motd out, []));
           out' = \<lparr>pid_file_path = tmp_pid_file, keys_file_path = tmp_keys_file,
                   port = port', enable_ipv6 = enable_ipv6',
                   enable_ipv4_fallback = enable_ipv4_fallback',
                   enable_lan_discovery = enable_lan_discovery',
                   enable_tcp_relay = enable_tcp_relay',
                   tcp_relay_ports = tcp_relay_ports',
                   tcp_relay_port_count = tcp_relay_port_count',
                   enable_motd = enable_motd', motd = motd'\<rparr>
         in (1, out',
             lg1 @ lg2 @ lg3 @ lg4 @ lg5 @ lg6 @ lg7 @ lg8 @ lg9 @ lg10
             @ report_general_config out')))"

section \<open>The network engine and the operating system\<close>

text \<open>
  Everything \<open>bootstrap_from_config\<close> and \<open>main\<close> call outside this file, as the values
  the calls return. The sizes, \<open>MAX_MOTD_LENGTH\<close>, \<open>DAEMON_NAME\<close> and
  \<open>DAEMON_VERSION_NUMBER\<close> are macros of headers outside this file. A constructor that
  returns a pointer is kept as whether the pointer is not \<open>NULL\<close>; \<open>new_DHT\<close> gives the
  structure with its freshly generated keys. \<open>fork\<close>, \<open>setsid\<close> and \<open>chdir\<close> are the
  values the system calls return in the process that is followed. The last three fields
  are what the engine and the clock answer in iteration \<open>k\<close> of the main loop.
\<close>

record world =
  crypto_box_PUBLICKEYBYTES :: nat
  crypto_box_SECRETKEYBYTES :: nat
  MAX_MOTD_LENGTH :: nat
  DAEMON_NAME :: string
  DAEMON_VERSION_NUMBER :: nat
  config_read_file :: "string \<Rightarrow> config_t option"
  new_networking :: "bool \<Rightarrow> uint16_t \<Rightarrow> bool"
  new_DHT :: "DHT option"
  new_onion :: bool
  new_onion_announce :: bool
  bootstrap_set_callbacks :: "nat \<Rightarrow> char list \<Rightarrow> nat \<Rightarrow> int"
  new_TCP_server :: "bool \<Rightarrow> nat \<Rightarrow> uint16_t list \<Rightarrow> uint8_t list \<Rightarrow> bool"
  hex_string_to_bin :: "string \<Rightarrow> uint8_t list"
  htons :: "uint16_t \<Rightarrow> uint16_t"
  DHT_bootstrap_from_address :: "string \<Rightarrow> bool \<Rightarrow> uint16_t \<Rightarrow> uint8_t list \<Rightarrow> bool"
  fopen_append :: "string \<Rightarrow> bool"
  fork :: int
  setsid :: int
  chdir :: "string \<Rightarrow> int"
  DHT_isconnected :: "nat \<Rightarrow> bool"
  is_timeout :: "nat \<Rightarrow> 64 word \<Rightarrow> bool"
  unix_time :: "nat \<Rightarrow> 64 word"

datatype LOG_BACKEND = LOG_BACKEND_SYSLOG | LOG_BACKEND_STDOUT

datatype fileno = STDIN_FILENO | STDOUT_FILENO | STDERR_FILENO

text \<open>The calls with an effect outside the process, in the order they are made.\<close>

datatype effect =
    Call_new_networking bool uint16_t
  | Call_new_DHT
  | Call_new_onion
  | Call_new_onion_announce
  | Call_bootstrap_set_callbacks nat "char list" nat
  | Call_new_TCP_server bool nat "uint16_t list" "uint8_t list"
  | Call_DHT_bootstrap_from_address string bool uint16_t "uint8_t list"
  | Call_fopen string string
  | Call_fork
  | Call_fprintf_pidf int
  | Call_fclose_pidf
  | Call_umask nat
  | Call_setsid
  | Call_chdir string
  | Call_close fileno
  | Call_LANdiscovery_init
  | Call_do_DHT
  | Call_send_LANdiscovery uint16_t
  | Call_do_TCP_server
  | Call_networking_poll
  | Call_usleep nat

section \<open>bootstrap_from_config\<close>

abbreviation NAME_BOOTSTRAP_NODES :: string where "NAME_BOOTSTRAP_NODES \<equiv> ''bootstrap_nodes''"
abbreviation NAME_PUBLIC_KEY :: string where "NAME_PUBLIC_KEY \<equiv> ''public_key''"
abbreviation NAME_ADDRESS :: string where "NAME_ADDRESS \<equiv> ''address''"

text \<open>
  One pass through the body of the \<open>while\<close> loop, from the first lookup to the label
  \<open>next\<close>: each \<open>goto next\<close> is a branch that ends here. \<open>use_ipv6\<close> is the parameter
  \<open>enable_ipv6\<close>. The result is the lines logged and the engine calls made for node \<open>i\<close>.
\<close>

definition bootstrap_node ::
  "world \<Rightarrow> bool \<Rightarrow> config_setting_t \<Rightarrow> nat \<Rightarrow> log \<times> effect list" where
  "bootstrap_node w use_ipv6 node i =
    (case config_setting_lookup_string node NAME_PUBLIC_KEY of
       None \<Rightarrow> ([(LOG_LEVEL_WARNING, Node_setting_not_found i NAME_PUBLIC_KEY)], [])
     | Some bs_public_key \<Rightarrow>
    (case config_setting_lookup_int node NAME_PORT of
       None \<Rightarrow> ([(LOG_LEVEL_WARNING, Node_setting_not_found i NAME_PORT)], [])
     | Some bs_port \<Rightarrow>
    (case config_setting_lookup_string node NAME_ADDRESS of
       None \<Rightarrow> ([(LOG_LEVEL_WARNING, Node_setting_not_found i NAME_ADDRESS)], [])
     | Some bs_address \<Rightarrow>
       if strlen bs_public_key \<noteq> crypto_box_PUBLICKEYBYTES w * 2
       then ([(LOG_LEVEL_WARNING, Node_invalid_str i NAME_PUBLIC_KEY bs_public_key)], [])
       else if sint bs_port < MIN_ALLOWED_PORT \<or> sint bs_port > MAX_ALLOWED_PORT
       then ([(LOG_LEVEL_WARNING, Node_invalid_port i NAME_PORT (sint bs_port))], [])
       else
         (let bs_public_key_bin = hex_string_to_bin w bs_public_key;
              address_resolved =
                DHT_bootstrap_from_address w bs_address use_ipv6 (htons w (ucast bs_port))
                  bs_public_key_bin;
              calls = [Call_DHT_bootstrap_from_address bs_address use_ipv6
                         (htons w (ucast bs_port)) bs_public_key_bin]
          in if \<not> address_resolved
             then ([(LOG_LEVEL_WARNING, Node_invalid_str i NAME_ADDRESS bs_address)], calls)
             else ([(LOG_LEVEL_INFO,
                     Node_added i bs_address (sint bs_port) bs_public_key)], calls)))))"

text \<open>
  The \<open>while\<close> loop: it takes the first element of the list, handles it, removes it and
  counts on, until the list is empty. A first element that is not there ends the function
  with 0.
\<close>

function bootstrap_loop ::
  "world \<Rightarrow> bool \<Rightarrow> config_setting_t \<Rightarrow> nat \<Rightarrow> log \<times> effect list
     \<Rightarrow> int \<times> log \<times> effect list" where
  "bootstrap_loop w use_ipv6 node_list i acc =
    (if config_setting_length node_list \<noteq> 0 then
       (case config_setting_get_elem node_list 0 of
          None \<Rightarrow> (0, acc)
        | Some node \<Rightarrow>
            bootstrap_loop w use_ipv6 (config_setting_remove_elem node_list 0) (i + 1)
              (fst acc @ fst (bootstrap_node w use_ipv6 node i),
               snd acc @ snd (bootstrap_node w use_ipv6 node i)))
     else (1, acc))"
  by pat_completeness auto
termination
  apply (relation "measure (\<lambda>(w, use_ipv6, node_list, i, acc). config_setting_length node_list)")
   apply simp
  subgoal for w use_ipv6 node_list i acc node
    by (cases node_list) (auto simp: config_setting_length_def)
  done

declare bootstrap_loop.simps [simp del]

definition bootstrap_from_config ::
  "world \<Rightarrow> string \<Rightarrow> bool \<Rightarrow> int \<times> log \<times> effect list" where
  "bootstrap_from_config w cfg_file_path use_ipv6 =
    (case config_read_file w cfg_file_path of
       None \<Rightarrow> (0, [(LOG_LEVEL_ERROR, Config_read_error cfg_file_path)], [])
     | Some cfg \<Rightarrow>
    (case config_lookup cfg NAME_BOOTSTRAP_NODES of
       None \<Rightarrow> (1, [(LOG_LEVEL_WARNING, No_bootstrap_nodes_setting NAME_BOOTSTRAP_NODES)], [])
     | Some node_list \<Rightarrow>
         if config_setting_length node_list = 0
         then (1, [(LOG_LEVEL_WARNING, No_bootstrap_nodes_found)], [])
         else bootstrap_loop w use_ipv6 node_list 0 ([], [])))"

section \<open>main\<close>

text \<open>
  What \<open>main\<close> has done so far: the lines logged, the outside calls made, and the files.
  A part of \<open>main\<close> either returns from \<open>main\<close> with an exit status (\<open>Inl\<close>) or hands
  a value to the part after it (\<open>Inr\<close>).
\<close>

record run_state =
  log_lines :: log
  calls :: "effect list"
  fsys :: filesystem

definition write_log :: "LOG_LEVEL \<Rightarrow> log_message \<Rightarrow> run_state \<Rightarrow> run_state" where
  "write_log level msg st = st\<lparr>log_lines := log_lines st @ [(level, msg)]\<rparr>"

definition call :: "effect \<Rightarrow> run_state \<Rightarrow> run_state" where
  "call e st = st\<lparr>calls := calls st @ [e]\<rparr>"

definition and_then ::
  "(int + 'a) \<times> run_state \<Rightarrow> ('a \<Rightarrow> run_state \<Rightarrow> (int + 'b) \<times> run_state)
     \<Rightarrow> (int + 'b) \<times> run_state" where
  "and_then r f = (case r of (Inl status, st) \<Rightarrow> (Inl status, st) | (Inr x, st) \<Rightarrow> f x st)"

text \<open>Reading the general configuration and checking the listen port.\<close>

definition main_config ::
  "world \<Rightarrow> string \<Rightarrow> general_config \<Rightarrow> run_state \<Rightarrow> (int + general_config) \<times> run_state" where
  "main_config w cfg_file_path out0 st =
    (case get_general_config (config_read_file w) (MAX_MOTD_LENGTH w) (DAEMON_NAME w)
            cfg_file_path out0 of
       (r, c, l) \<Rightarrow>
         (let st1 = st\<lparr>log_lines := log_lines st @ l\<rparr> in
          if r \<noteq> 0 then
            (let st2 = write_log LOG_LEVEL_INFO General_config_read_successfully st1 in
             if sint (port c) < MIN_ALLOWED_PORT \<or> sint (port c) > MAX_ALLOWED_PORT
             then (Inl 1, write_log LOG_LEVEL_ERROR (Invalid_port (sint (port c))) st2)
             else (Inr c, st2))
          else (Inl 1, write_log LOG_LEVEL_ERROR (Couldnt_read_config_file cfg_file_path) st1)))"

text \<open>The check whether the PID file exists.\<close>

definition main_pid_check :: "general_config \<Rightarrow> run_state \<Rightarrow> run_state" where
  "main_pid_check c st =
    (if files (fsys st) (pid_file_path c) \<noteq> None
     then write_log LOG_LEVEL_WARNING (Another_instance_running (pid_file_path c)) st
     else st)"

text \<open>
  Networking, with the fallback to IPv4. \<open>new_networking\<close> takes the port as
  \<open>uint16_t\<close>. The configuration handed on has \<open>enable_ipv6\<close> cleared when the fallback
  was taken, as the local variable of \<open>main\<close> has.
\<close>

definition main_networking ::
  "world \<Rightarrow> general_config \<Rightarrow> run_state \<Rightarrow> (int + general_config) \<times> run_state" where
  "main_networking w c st =
    (let st1 = call (Call_new_networking (enable_ipv6 c) (ucast (port c))) st in
     if \<not> new_networking w (enable_ipv6 c) (ucast (port c)) then
       (if enable_ipv6 c \<and> enable_ipv4_fallback c then
          (let st2 = write_log LOG_LEVEL_WARNING Falling_back_to_IPv4 st1;
               c' = c\<lparr>enable_ipv6 := False\<rparr>;
               st3 = call (Call_new_networking (enable_ipv6 c') (ucast (port c'))) st2
           in if \<not> new_networking w (enable_ipv6 c') (ucast (port c'))
              then (Inl 1, write_log LOG_LEVEL_ERROR Couldnt_fallback_to_IPv4 st3)
              else (Inr c', st3))
        else (Inl 1, write_log LOG_LEVEL_ERROR Couldnt_initialize_networking st1))
     else (Inr c, st1))"

definition main_dht_onion :: "world \<Rightarrow> run_state \<Rightarrow> (int + DHT) \<times> run_state" where
  "main_dht_onion w st =
    (let st1 = call Call_new_DHT st in
     case new_DHT w of
       None \<Rightarrow> (Inl 1, write_log LOG_LEVEL_ERROR Couldnt_initialize_DHT st1)
     | Some dht \<Rightarrow>
         (let st2 = call Call_new_onion_announce (call Call_new_onion st1) in
          if \<not> (new_onion w \<and> new_onion_announce w)
          then (Inl 1, write_log LOG_LEVEL_ERROR Couldnt_initialize_Onion st2)
          else (Inr dht, st2)))"

definition main_motd :: "world \<Rightarrow> general_config \<Rightarrow> run_state \<Rightarrow> (int + unit) \<times> run_state" where
  "main_motd w c st =
    (if enable_motd c then
       (let st1 = call (Call_bootstrap_set_callbacks (DAEMON_VERSION_NUMBER w) (motd c)
                          (strlen (motd c) + 1)) st in
        if bootstrap_set_callbacks w (DAEMON_VERSION_NUMBER w) (motd c) (strlen (motd c) + 1) = 0
        then (Inr (), write_log LOG_LEVEL_INFO Set_MOTD_successfully st1)
        else (Inl 1, write_log LOG_LEVEL_ERROR
                       (Couldnt_set_MOTD (takeWhile (\<lambda>c. c \<noteq> NUL) (motd c))) st1))
     else (Inr (), st))"

definition main_keys ::
  "world \<Rightarrow> general_config \<Rightarrow> DHT \<Rightarrow> run_state \<Rightarrow> (int + DHT) \<times> run_state" where
  "main_keys w c dht st =
    (case manage_keys (crypto_box_PUBLICKEYBYTES w) (crypto_box_SECRETKEYBYTES w) dht
            (keys_file_path c) (fsys st) of
       (r, dht', fs') \<Rightarrow>
         (let st1 = st\<lparr>fsys := fs'\<rparr> in
          if r \<noteq> 0
          then (Inr dht', write_log LOG_LEVEL_INFO Keys_are_managed_successfully st1)
          else (Inl 1, write_log LOG_LEVEL_ERROR (Couldnt_read_write (keys_file_path c)) st1)))"

definition main_tcp_relay ::
  "world \<Rightarrow> general_config \<Rightarrow> DHT \<Rightarrow> run_state \<Rightarrow> (int + unit) \<times> run_state" where
  "main_tcp_relay w c dht st =
    (if enable_tcp_relay c then
       (if tcp_relay_port_count c = 0
        then (Inl 1, write_log LOG_LEVEL_ERROR No_TCP_relay_ports_read st)
        else
          (let st1 = call (Call_new_TCP_server (enable_ipv6 c) (tcp_relay_port_count c)
                             (tcp_relay_ports c) (self_secret_key dht)) st in
           if new_TCP_server w (enable_ipv6 c) (tcp_relay_port_count c) (tcp_relay_ports c)
                (self_secret_key dht)
           then (Inr (), write_log LOG_LEVEL_INFO Initialized_TCP_server_successfully st1)
           else (Inl 1, write_log LOG_LEVEL_ERROR Couldnt_initialize_TCP_server st1)))
     else (Inr (), st))"

definition main_bootstrap ::
  "world \<Rightarrow> string \<Rightarrow> general_config \<Rightarrow> DHT \<Rightarrow> run_state \<Rightarrow> (int + unit) \<times> run_state" where
  "main_bootstrap w cfg_file_path c dht st =
    (case bootstrap_from_config w cfg_file_path (enable_ipv6 c) of
       (r, l, cs) \<Rightarrow>
         (let st1 = st\<lparr>log_lines := log_lines st @ l, calls := calls st @ cs\<rparr> in
          if r \<noteq> 0
          then (Inr (),
                write_log LOG_LEVEL_INFO
                  (Public_Key (take (crypto_box_PUBLICKEYBYTES w) (self_public_key dht)))
                  (write_log LOG_LEVEL_INFO Bootstrap_nodes_read_successfully st1))
          else (Inl 1,
                write_log LOG_LEVEL_ERROR (Couldnt_read_bootstrap_nodes cfg_file_path) st1)))"

text \<open>
  Writing the PID file and leaving the terminal. What \<open>fprintf\<close> puts into the PID file is
  kept among the calls.
\<close>

definition main_daemonize ::
  "world \<Rightarrow> LOG_BACKEND \<Rightarrow> general_config \<Rightarrow> run_state \<Rightarrow> (int + unit) \<times> run_state" where
  "main_daemonize w log_backend c st =
    (let st1 = call (Call_fopen (pid_file_path c) ''a+'') st in
     if \<not> fopen_append w (pid_file_path c)
     then (Inl 1, write_log LOG_LEVEL_ERROR (Couldnt_open_PID_file (pid_file_path c)) st1)
     else
       (let pid = fork w;
            st2 = call Call_fork st1
        in if pid > 0
           then (Inl 0,
                 write_log LOG_LEVEL_INFO (Forked_successfully pid)
                   (call Call_fclose_pidf (call (Call_fprintf_pidf pid) st2)))
           else
             (let st3 = call Call_fclose_pidf st2 in
              if pid < 0 then (Inl 1, write_log LOG_LEVEL_ERROR Forking_failed st3)
              else
                (let st4 = call Call_setsid (call (Call_umask 0) st3) in
                 if setsid w < 0 then (Inl 1, write_log LOG_LEVEL_ERROR SID_creation_failure st4)
                 else
                   (let st5 = call (Call_chdir ''/'') st4 in
                    if chdir w ''/'' < 0
                    then (Inl 1,
                          write_log LOG_LEVEL_ERROR Couldnt_change_working_directory st5)
                    else (Inr (),
                          if log_backend \<noteq> LOG_BACKEND_STDOUT
                          then call (Call_close STDERR_FILENO)
                                 (call (Call_close STDIN_FILENO)
                                    (call (Call_close STDOUT_FILENO) st5))
                          else st5))))))"

text \<open>The main loop: its two variables, what precedes it, and one iteration.\<close>

record loop_state =
  waiting_for_dht_connection :: bool
  last_LANdiscovery :: "64 word"

definition SLEEP_TIME_MILLISECONDS :: nat where
  "SLEEP_TIME_MILLISECONDS = 30"

definition main_loop_init :: "general_config \<Rightarrow> run_state \<Rightarrow> loop_state \<times> run_state" where
  "main_loop_init c st =
    (\<lparr>waiting_for_dht_connection = True, last_LANdiscovery = 0\<rparr>,
     if enable_lan_discovery c
     then write_log LOG_LEVEL_INFO Initialized_LAN_discovery (call Call_LANdiscovery_init st)
     else st)"

definition main_loop_body ::
  "world \<Rightarrow> general_config \<Rightarrow> nat \<Rightarrow> loop_state \<times> run_state \<Rightarrow> loop_state \<times> run_state" where
  "main_loop_body w c k s =
    (case s of (ls, st) \<Rightarrow>
      (let st1 = call Call_do_DHT st;
           (ls1, st2) =
             (if enable_lan_discovery c \<and> is_timeout w k (last_LANdiscovery ls)
              then (ls\<lparr>last_LANdiscovery := unix_time w k\<rparr>,
                    call (Call_send_LANdiscovery (htons w (ucast (port c)))) st1)
              else (ls, st1));
           st3 = (if enable_tcp_relay c then call Call_do_TCP_server st2 else st2);
           st4 = call Call_networking_poll st3;
           (ls2, st5) =
             (if waiting_for_dht_connection ls1 \<and> DHT_isconnected w k
              then (ls1\<lparr>waiting_for_dht_connection := False\<rparr>,
                    write_log LOG_LEVEL_INFO Connected_to_other_bootstrap_node st4)
              else (ls1, st4))
       in (ls2, call (Call_usleep (1000 * SLEEP_TIME_MILLISECONDS)) st5)))"

text \<open>
  The loop never ends. \<open>main_loop w c n s\<close> is where its first \<open>n\<close> iterations take it
  from \<open>s\<close>; iteration \<open>k\<close> is the step from \<open>main_loop w c k s\<close> to
  \<open>main_loop w c (Suc k) s\<close>.
\<close>

primrec main_loop ::
  "world \<Rightarrow> general_config \<Rightarrow> nat \<Rightarrow> loop_state \<times> run_state \<Rightarrow> loop_state \<times> run_state" where
  "main_loop w c 0 s = s"
| "main_loop w c (Suc n) s = main_loop_body w c n (main_loop w c n s)"

text \<open>
  \<open>main\<close> after the command line has been handled: \<open>out0\<close> is what its uninitialised
  locals hold, \<open>fs\<close> the files it finds. It returns an exit status, or reaches the loop
  with the configuration and state given.
\<close>

definition main ::
  "world \<Rightarrow> string \<Rightarrow> LOG_BACKEND \<Rightarrow> general_config \<Rightarrow> filesystem
     \<Rightarrow> (int + general_config \<times> loop_state) \<times> run_state" where
  "main w cfg_file_path log_backend out0 fs =
    and_then
      (main_config w cfg_file_path out0
         (write_log LOG_LEVEL_INFO (Running_version (DAEMON_NAME w) (DAEMON_VERSION_NUMBER w))
            \<lparr>log_lines = [], calls = [], fsys = fs\<rparr>))
      (\<lambda>c0 st. and_then (main_networking w c0 (main_pid_check c0 st))
      (\<lambda>c st. and_then (main_dht_onion w st)
      (\<lambda>dht0 st. and_then (main_motd w c st)
      (\<lambda>_ st. and_then (main_keys w c dht0 st)
      (\<lambda>dht st. and_then (main_tcp_relay w c dht st)
      (\<lambda>_ st. and_then (main_bootstrap w cfg_file_path c dht st)
      (\<lambda>_ st. and_then (main_daemonize w log_backend c st)
      (\<lambda>_ st. (Inr (c, fst (main_loop_init c st)), snd (main_loop_init c st))))))))))"

section \<open>The checks on one bootstrap entry, as the specification orders them\<close>

text \<open>
  The specification validates an entry in a fixed order: the three settings must be
  present (public key, port, address), the public key must have twice as many characters
  as the key has bytes, the port must lie in [1, 65535], and the address must resolve,
  with IPv6 as the preference allows. \<open>spec_node_verdict\<close> is the first check that fails, or
  \<open>Added\<close>; \<open>spec_verdict_line\<close> is the line logged for it. Resolving the address is
  the engine's call: \<open>spec_node_calls\<close> hands an entry to the engine once, with its own
  address, port and key, when it has passed the checks before the resolution, and not at
  all when an earlier check has skipped it.
\<close>

datatype node_verdict =
    Missing_setting string
  | Invalid_public_key string
  | Invalid_port int
  | Unresolved_address string
  | Added string int string

definition spec_node_verdict :: "world \<Rightarrow> bool \<Rightarrow> config_setting_t \<Rightarrow> node_verdict" where
  "spec_node_verdict w use_ipv6 node =
    (if config_setting_lookup_string node NAME_PUBLIC_KEY = None
       then Missing_setting NAME_PUBLIC_KEY
     else if config_setting_lookup_int node NAME_PORT = None
       then Missing_setting NAME_PORT
     else if config_setting_lookup_string node NAME_ADDRESS = None
       then Missing_setting NAME_ADDRESS
     else
       (let bs_public_key = the (config_setting_lookup_string node NAME_PUBLIC_KEY);
            bs_port = the (config_setting_lookup_int node NAME_PORT);
            bs_address = the (config_setting_lookup_string node NAME_ADDRESS)
        in if strlen bs_public_key \<noteq> 2 * crypto_box_PUBLICKEYBYTES w
             then Invalid_public_key bs_public_key
           else if \<not> (1 \<le> sint bs_port \<and> sint bs_port \<le> 65535)
             then Invalid_port (sint bs_port)
           else if \<not> DHT_bootstrap_from_address w bs_address use_ipv6 (htons w (ucast bs_port))
                      (hex_string_to_bin w bs_public_key)
             then Unresolved_address bs_address
           else Added bs_address (sint bs_port) bs_public_key))"

fun spec_verdict_line :: "nat \<Rightarrow> node_verdict \<Rightarrow> LOG_LEVEL \<times> log_message" where
  "spec_verdict_line i (Missing_setting name) = (LOG_LEVEL_WARNING, Node_setting_not_found i name)"
| "spec_verdict_line i (Invalid_public_key bs_public_key) =
     (LOG_LEVEL_WARNING, Node_invalid_str i NAME_PUBLIC_KEY bs_public_key)"
| "spec_verdict_line i (Invalid_port bs_port) = (LOG_LEVEL_WARNING, Node_invalid_port i NAME_PORT bs_port)"
| "spec_verdict_line i (Unresolved_address bs_address) =
     (LOG_LEVEL_WARNING, Node_invalid_str i NAME_ADDRESS bs_address)"
| "spec_verdict_line i (Added bs_address bs_port bs_public_key) =
     (LOG_LEVEL_INFO, Node_added i bs_address bs_port bs_public_key)"

fun reaches_resolution :: "node_verdict \<Rightarrow> bool" where
  "reaches_resolution (Unresolved_address _) = True"
| "reaches_resolution (Added _ _ _) = True"
| "reaches_resolution _ = False"

definition spec_node_calls :: "world \<Rightarrow> bool \<Rightarrow> config_setting_t \<Rightarrow> effect list" where
  "spec_node_calls w use_ipv6 node =
    (if reaches_resolution (spec_node_verdict w use_ipv6 node)
     then [Call_DHT_bootstrap_from_address
             (the (config_setting_lookup_string node NAME_ADDRESS)) use_ipv6
             (htons w (ucast (the (config_setting_lookup_int node NAME_PORT))))
             (hex_string_to_bin w (the (config_setting_lookup_string node NAME_PUBLIC_KEY)))]
     else [])"

section \<open>What is observed of a run\<close>

text \<open>The calls of \<open>new_networking\<close> made so far, in order.\<close>

fun is_new_networking :: "effect \<Rightarrow> bool" where
  "is_new_networking (Call_new_networking _ _) = True"
| "is_new_networking _ = False"

definition networking_calls :: "run_state \<Rightarrow> effect list" where
  "networking_calls st = filter is_new_networking (calls st)"

text \<open>
  How often the connected line is in the log; whether \<open>waiting_for_dht_connection\<close> is
  still set after \<open>n\<close> iterations of the loop from \<open>s\<close>; and whether iteration \<open>k\<close> logs
  the connected line.
\<close>

definition connected_lines :: "run_state \<Rightarrow> nat" where
  "connected_lines st =
    count_list (log_lines st) (LOG_LEVEL_INFO, Connected_to_other_bootstrap_node)"

definition waiting_at :: "world \<Rightarrow> general_config \<Rightarrow> loop_state \<times> run_state \<Rightarrow> nat \<Rightarrow> bool" where
  "waiting_at w c s n = waiting_for_dht_connection (fst (main_loop w c n s))"

definition connected_logged_at ::
  "world \<Rightarrow> general_config \<Rightarrow> loop_state \<times> run_state \<Rightarrow> nat \<Rightarrow> bool" where
  "connected_logged_at w c s k =
    (connected_lines (snd (main_loop w c (Suc k) s)) > connected_lines (snd (main_loop w c k s)))"

section \<open>Inputs for the examples\<close>

text \<open>
  Concrete inputs on which the theorems below are instantiated: locals of \<open>main\<close> before
  they are filled, a world in which every outside call succeeds and an empty settings
  file is read, and a file system with no files in which every write is complete.
\<close>

definition locals_at_entry :: general_config where
  "locals_at_entry =
    \<lparr>pid_file_path = [], keys_file_path = [], port = 0, enable_ipv6 = False,
     enable_ipv4_fallback = False, enable_lan_discovery = False, enable_tcp_relay = False,
     tcp_relay_ports = [], tcp_relay_port_count = 0, enable_motd = False, motd = []\<rparr>"

definition example_world :: world where
  "example_world =
    \<lparr>crypto_box_PUBLICKEYBYTES = 32, crypto_box_SECRETKEYBYTES = 32, MAX_MOTD_LENGTH = 256,
     DAEMON_NAME = ''tox-bootstrapd'', DAEMON_VERSION_NUMBER = 2014101200,
     config_read_file = (\<lambda>_. Some []),
     new_networking = (\<lambda>_ _. True),
     new_DHT = Some \<lparr>self_public_key = replicate 32 1, self_secret_key = replicate 32 2\<rparr>,
     new_onion = True, new_onion_announce = True,
     bootstrap_set_callbacks = (\<lambda>_ _ _. 0),
     new_TCP_server = (\<lambda>_ _ _ _. True),
     hex_string_to_bin = (\<lambda>_. []),
     htons = (\<lambda>x. x),
     DHT_bootstrap_from_address = (\<lambda>_ _ _ _. True),
     fopen_append = (\<lambda>_. True),
     fork = 0, setsid = 0, chdir = (\<lambda>_. 0),
     DHT_isconnected = (\<lambda>_. False), is_timeout = (\<lambda>_ _. False), unix_time = (\<lambda>_. 0)\<rparr>"

definition example_files :: filesystem where
  "example_files =
    \<lparr>files = Map.empty, fopen_w_ok = (\<lambda>_. True), fwrite_limit = (\<lambda>_. 64),
     flush_limit = (\<lambda>_. 64)\<rparr>"

text \<open>The configuration an empty settings file gives.\<close>

definition default_config :: general_config where
  "default_config = \<lparr>pid_file_path = ''tox-bootstrapd.pid'',
        keys_file_path = ''tox-bootstrapd.keys'', port = 33445,
        enable_ipv6 = True, enable_ipv4_fallback = True,
        enable_lan_discovery = True, enable_tcp_relay = True,
        tcp_relay_ports = [443, 3389, 33445], tcp_relay_port_count = 3, enable_motd = True,
        motd = ''tox-bootstrapd'' @ [NUL]\<rparr>"

section \<open>Properties of manage_keys\<close>

lemma manage_keys_existing:
  "files fs p = Some contents \<Longrightarrow>
   manage_keys pk sk dht p fs =
     (if pk + sk \<le> length contents
      then (1, dht\<lparr>self_public_key := take pk contents,
                    self_secret_key := take sk (drop pk contents)\<rparr>, fs)
      else (0, dht, fs))"
  by (auto simp: manage_keys_def Let_def min_def take_drop)

text \<open>
  C3 (as stated, refuted): an existing key file is loaded only when it holds exactly
  \<open>crypto_box_PUBLICKEYBYTES + crypto_box_SECRETKEYBYTES\<close> bytes. With both sizes 32, a
  key file of 65 bytes is read without complaint: \<open>fread\<close> stops after 64 bytes and
  \<open>manage_keys\<close> returns 1.
\<close>

theorem manage_keys_overlong_counterexample:
  "fst (manage_keys 32 32
          \<lparr>self_public_key = replicate 32 0, self_secret_key = replicate 32 0\<rparr>
          ''tox-bootstrapd.keys''
          \<lparr>files = [''tox-bootstrapd.keys'' \<mapsto> replicate 65 7],
           fopen_w_ok = (\<lambda>_. True), fwrite_limit = (\<lambda>_. 64),
           flush_limit = (\<lambda>_. 64)\<rparr>) = 1
   \<and> length (replicate 65 (7 :: uint8_t)) \<noteq> 32 + 32"
  by (simp add: manage_keys_def Let_def)

text \<open>
  C3 (amended): when the key file exists, \<open>manage_keys\<close> succeeds exactly when the file
  holds at least \<open>crypto_box_PUBLICKEYBYTES + crypto_box_SECRETKEYBYTES\<close> bytes. It then
  takes the public key from the first \<open>crypto_box_PUBLICKEYBYTES\<close> bytes and the secret
  key from the \<open>crypto_box_SECRETKEYBYTES\<close> bytes after them, and ignores the rest. A
  shorter file is a failure (return value 0) that leaves both keys of the \<open>DHT\<close>, and the
  file, as they were: no partial identity is loaded.
\<close>

theorem manage_keys_existing_file:
  assumes "files fs p = Some contents"
  shows "(fst (manage_keys pk sk dht p fs) = 1 \<longleftrightarrow> pk + sk \<le> length contents)
    \<and> (pk + sk \<le> length contents \<longrightarrow>
         manage_keys pk sk dht p fs =
           (1, dht\<lparr>self_public_key := take pk contents,
                    self_secret_key := take sk (drop pk contents)\<rparr>, fs))
    \<and> (length contents < pk + sk \<longrightarrow> manage_keys pk sk dht p fs = (0, dht, fs))"
  using manage_keys_existing [OF assms, of pk sk dht] by simp

theorem manage_keys_existing_file_witness:
  "manage_keys 32 32
      \<lparr>self_public_key = replicate 32 0, self_secret_key = replicate 32 0\<rparr>
      ''tox-bootstrapd.keys''
      \<lparr>files = [''tox-bootstrapd.keys'' \<mapsto> replicate 63 7],
       fopen_w_ok = (\<lambda>_. True), fwrite_limit = (\<lambda>_. 64),
       flush_limit = (\<lambda>_. 64)\<rparr>
   = (0, \<lparr>self_public_key = replicate 32 0, self_secret_key = replicate 32 0\<rparr>,
      \<lparr>files = [''tox-bootstrapd.keys'' \<mapsto> replicate 63 7],
       fopen_w_ok = (\<lambda>_. True), fwrite_limit = (\<lambda>_. 64),
       flush_limit = (\<lambda>_. 64)\<rparr>)"
  using manage_keys_existing_file
    [of "\<lparr>files = [''tox-bootstrapd.keys'' \<mapsto> replicate 63 7],
          fopen_w_ok = (\<lambda>_. True), fwrite_limit = (\<lambda>_. 64),
          flush_limit = (\<lambda>_. 64)\<rparr>"
        "''tox-bootstrapd.keys''" "replicate 63 7" 32 32
        "\<lparr>self_public_key = replicate 32 0, self_secret_key = replicate 32 0\<rparr>"]
  by simp




section \<open>Properties of parse_tcp_relay_ports_config\<close>

lemma ucast_minus_one: "(ucast (- 1 :: c_int) :: uint16_t) = 65535"
  by code_simp

lemma store_port_accepts_iff:
  assumes "cnt < length buf"
  shows "fst (snd (store_port i (ucast (v :: c_int)) (buf, cnt, lg)))
      = (if (ucast v :: uint16_t) = 0 then cnt else cnt + 1)"
proof -
  have "uint (ucast v :: uint16_t) \<le> 65535"
    using uint_lt2p [of "ucast v :: uint16_t"] by simp
  moreover have "uint (ucast v :: uint16_t) < 1 \<longleftrightarrow> (ucast v :: uint16_t) = 0"
    by (metis uint_0_iff uint_nonnegative less_one linorder_not_le order_antisym_conv
        zle_diff1_eq zero_less_one diff_self int_one_le_iff_zero_less)
  ultimately show ?thesis
    using assms by (simp add: store_port_def Let_def MIN_ALLOWED_PORT_def MAX_ALLOWED_PORT_def)
qed


lemma parse_tcp_relay_ports_config_default:
  "parse_tcp_relay_ports_config [] ports =
    ([443, 3389, 33445], 3,
     [(LOG_LEVEL_WARNING, No_setting_in_the_configuration_file NAME_TCP_RELAY_PORTS),
      (LOG_LEVEL_WARNING, Using_default_list NAME_TCP_RELAY_PORTS),
      (LOG_LEVEL_INFO, Port_number 0 443),
      (LOG_LEVEL_INFO, Port_number 1 3389),
      (LOG_LEVEL_INFO, Port_number 2 33445)])"
  by (simp add: parse_tcp_relay_ports_config_def config_lookup_def DEFAULT_TCP_RELAY_PORTS_def
      DEFAULT_TCP_RELAY_PORTS_COUNT_def upt_rec store_port_def adjust_ports_def
      MIN_ALLOWED_PORT_def MAX_ALLOWED_PORT_def numeral_3_eq_3)

text \<open>
  C1 (the code departs from the claim): a relay port is converted to \<open>uint16_t\<close> before
  it is compared with the bounds, so the comparison sees only its low 16 bits. 65537 is
  accepted as port 1 and -1 as port 65535, without a warning; 0 and 65536 are both
  rejected, as port 0.
\<close>

theorem relay_port_truncated_before_check:
  "parse_tcp_relay_ports_config
      [(NAME_TCP_RELAY_PORTS, CONFIG_TYPE_ARRAY [CONFIG_TYPE_INT 65537])] []
     = ([1], 1, [])
   \<and> parse_tcp_relay_ports_config
        [(NAME_TCP_RELAY_PORTS, CONFIG_TYPE_ARRAY [CONFIG_TYPE_INT (- 1)])] []
     = ([65535], 1, [])
   \<and> parse_tcp_relay_ports_config
        [(NAME_TCP_RELAY_PORTS, CONFIG_TYPE_ARRAY [CONFIG_TYPE_INT 0, CONFIG_TYPE_INT 65536])] []
     = ([], 0, [(LOG_LEVEL_WARNING, Port_invalid 0 0), (LOG_LEVEL_WARNING, Port_invalid 1 0)])"
  by (simp add: parse_tcp_relay_ports_config_def config_lookup_def config_setting_length_def
      ports_loop.simps config_setting_get_elem_def store_port_def adjust_ports_def
      MIN_ALLOWED_PORT_def MAX_ALLOWED_PORT_def ucast_minus_one)

section \<open>Properties of get_general_config\<close>

lemma get_motd_buffer:
  assumes "0 < mx"
  shows "fst (get_motd mx dm cfg) =
    take (mx - 1) (takeWhile (\<lambda>c. c \<noteq> NUL)
       (case config_lookup_string cfg NAME_MOTD of Some s \<Rightarrow> s | None \<Rightarrow> dm)) @ [NUL]"
proof -
  define tmp where "tmp = (case config_lookup_string cfg NAME_MOTD of Some s \<Rightarrow> s | None \<Rightarrow> dm)"
  define t where "t = takeWhile (\<lambda>c. c \<noteq> NUL) tmp"
  define n where "n = (if length t + 1 > mx then mx else length t + 1)"
  have m: "fst (get_motd mx dm cfg) = (take n (t @ replicate n NUL))[n - 1 := NUL]"
    by (simp add: get_motd_def Let_def case_prod_beta strlen_def strncpy_def tmp_def t_def n_def
        split: option.splits)
  show ?thesis
  proof (cases "length t + 1 > mx")
    case True
    then have n: "n = mx" by (simp add: n_def)
    from True assms have "take mx (t @ replicate mx NUL) = take (mx - 1) t @ [t ! (mx - 1)]"
      by (cases mx) (simp_all add: take_Suc_conv_app_nth)
    then show ?thesis using assms True
      by (simp add: m n list_update_append flip: tmp_def t_def)
  next
    case False
    then have n: "n = length t + 1" by (simp add: n_def)
    from False show ?thesis
      by (simp add: m n list_update_append flip: tmp_def t_def)
  qed
qed

lemma get_motd_log_default:
  "config_lookup_string cfg NAME_MOTD = None \<Longrightarrow>
   snd (get_motd mx dm cfg) =
     [(LOG_LEVEL_WARNING, No_setting_in_configuration_file NAME_MOTD),
      (LOG_LEVEL_WARNING, Using_default_str NAME_MOTD dm)]"
  by (simp add: get_motd_def Let_def)

lemma c_string_take_NUL:
  "takeWhile (\<lambda>c. c \<noteq> NUL) (take n (takeWhile (\<lambda>c. c \<noteq> NUL) xs) @ [NUL])
      = take n (takeWhile (\<lambda>c. c \<noteq> NUL) xs)"
proof -
  have "x \<noteq> NUL" if "x \<in> set (take n (takeWhile (\<lambda>c. c \<noteq> NUL) xs))" for x
    using set_takeWhileD [OF in_set_takeD [OF that]] by simp
  then have "takeWhile (\<lambda>c. c \<noteq> NUL) (take n (takeWhile (\<lambda>c. c \<noteq> NUL) xs) @ [NUL])
      = take n (takeWhile (\<lambda>c. c \<noteq> NUL) xs) @ takeWhile (\<lambda>c. c \<noteq> NUL) [NUL]"
    by (rule takeWhile_append2)
  then show ?thesis by simp
qed

lemma strlen_take_le: "strlen (take n (takeWhile (\<lambda>c. c \<noteq> NUL) xs) @ [NUL]) \<le> n"
  by (simp add: strlen_def c_string_take_NUL)

lemma get_general_config_Some:
  assumes "rf p = Some cfg"
  shows "fst (get_general_config rf mx dm p out) = 1"
    and "enable_motd (fst (snd (get_general_config rf mx dm p out)))
          = (case config_lookup_bool cfg NAME_ENABLE_MOTD of
               Some b \<Rightarrow> b | None \<Rightarrow> DEFAULT_ENABLE_MOTD)"
    and "motd (fst (snd (get_general_config rf mx dm p out)))
          = (if enable_motd (fst (snd (get_general_config rf mx dm p out)))
             then fst (get_motd mx dm cfg) else motd out)"
    and "enable_tcp_relay (fst (snd (get_general_config rf mx dm p out)))
          = (case config_lookup_bool cfg NAME_ENABLE_TCP_RELAY of
               Some b \<Rightarrow> b | None \<Rightarrow> DEFAULT_ENABLE_TCP_RELAY)"
    and "tcp_relay_ports (fst (snd (get_general_config rf mx dm p out)))
          = (if enable_tcp_relay (fst (snd (get_general_config rf mx dm p out)))
             then fst (parse_tcp_relay_ports_config cfg (tcp_relay_ports out))
             else tcp_relay_ports out)"
    and "tcp_relay_port_count (fst (snd (get_general_config rf mx dm p out)))
          = (if enable_tcp_relay (fst (snd (get_general_config rf mx dm p out)))
             then fst (snd (parse_tcp_relay_ports_config cfg (tcp_relay_ports out)))
             else 0)"
    and "port (fst (snd (get_general_config rf mx dm p out)))
          = (case config_lookup_int cfg NAME_PORT of Some v \<Rightarrow> v | None \<Rightarrow> DEFAULT_PORT)"
  using assms
  by (simp_all add: get_general_config_def Let_def case_prod_beta option.case_distrib [of fst]
      cong: option.case_cong)

lemma get_general_config_log_motd:
  assumes "rf p = Some cfg" and "enable_motd (fst (snd (get_general_config rf mx dm p out)))"
  shows "set (snd (get_motd mx dm cfg)) \<subseteq> set (snd (snd (get_general_config rf mx dm p out)))"
  using assms by (simp add: get_general_config_def Let_def case_prod_beta le_supI2 le_supI1)




lemma get_general_config_empty_file:
  "rf p = Some [] \<Longrightarrow>
   fst (snd (get_general_config rf 256 ''tox-bootstrapd'' p out)) = default_config"
  by (simp add: get_general_config_def Let_def config_lookup_int_def config_lookup_bool_def
      config_lookup_string_def config_lookup_def parse_tcp_relay_ports_config_default
      get_motd_def strlen_def strncpy_def
      DEFAULT_PORT_def DEFAULT_PID_FILE_PATH_def DEFAULT_KEYS_FILE_PATH_def DEFAULT_ENABLE_IPV6_def
      DEFAULT_ENABLE_IPV4_FALLBACK_def DEFAULT_ENABLE_LAN_DISCOVERY_def DEFAULT_ENABLE_TCP_RELAY_def
      DEFAULT_ENABLE_MOTD_def default_config_def)

text \<open>
  C6: let the file parse, let \<open>MAX_MOTD_LENGTH\<close> be positive and let \<open>enable_motd\<close> come
  out true. Then the buffer \<open>motd\<close> is not empty, its last character is the terminator,
  it has at most \<open>MAX_MOTD_LENGTH\<close> characters, and the string in it, terminator counted,
  is no longer than \<open>MAX_MOTD_LENGTH\<close>. When no string setting \<open>motd\<close> is found, the
  string is the default text cut to \<open>MAX_MOTD_LENGTH - 1\<close> characters, and the two
  warnings that announce the default are in the log.
\<close>

theorem get_general_config_motd:
  assumes "0 < mx" and "rf p = Some cfg"
    and "enable_motd (fst (snd (get_general_config rf mx dm p out)))"
  shows "motd (fst (snd (get_general_config rf mx dm p out))) \<noteq> []
    \<and> last (motd (fst (snd (get_general_config rf mx dm p out)))) = NUL
    \<and> length (motd (fst (snd (get_general_config rf mx dm p out)))) \<le> mx
    \<and> strlen (motd (fst (snd (get_general_config rf mx dm p out)))) + 1 \<le> mx
    \<and> (config_lookup_string cfg NAME_MOTD = None \<longrightarrow>
         takeWhile (\<lambda>c. c \<noteq> NUL) (motd (fst (snd (get_general_config rf mx dm p out))))
           = take (mx - 1) (takeWhile (\<lambda>c. c \<noteq> NUL) dm)
         \<and> (LOG_LEVEL_WARNING, No_setting_in_configuration_file NAME_MOTD)
             \<in> set (snd (snd (get_general_config rf mx dm p out)))
         \<and> (LOG_LEVEL_WARNING, Using_default_str NAME_MOTD dm)
             \<in> set (snd (snd (get_general_config rf mx dm p out))))"
proof -
  let ?out = "fst (snd (get_general_config rf mx dm p out))"
  let ?tmp = "case config_lookup_string cfg NAME_MOTD of Some s \<Rightarrow> s | None \<Rightarrow> dm"
  have "motd ?out = fst (get_motd mx dm cfg)"
    using get_general_config_Some(3) [where rf = rf and p = p and cfg = cfg] assms(2,3) by simp
  then have m: "motd ?out = take (mx - 1) (takeWhile (\<lambda>c. c \<noteq> NUL) ?tmp) @ [NUL]"
    using get_motd_buffer [OF assms(1), of dm cfg] by simp
  have len: "strlen (motd ?out) + 1 \<le> mx"
    using strlen_take_le [of "mx - 1" ?tmp] assms(1) unfolding m by simp
  have size: "length (motd ?out) \<le> mx"
    using assms(1) unfolding m by simp
  have dflt: "config_lookup_string cfg NAME_MOTD = None \<Longrightarrow>
      takeWhile (\<lambda>c. c \<noteq> NUL) (motd ?out) = take (mx - 1) (takeWhile (\<lambda>c. c \<noteq> NUL) dm)"
    unfolding m by (simp add: c_string_take_NUL)
  have logged: "config_lookup_string cfg NAME_MOTD = None \<Longrightarrow>
      (LOG_LEVEL_WARNING, No_setting_in_configuration_file NAME_MOTD)
             \<in> set (snd (snd (get_general_config rf mx dm p out)))
      \<and> (LOG_LEVEL_WARNING, Using_default_str NAME_MOTD dm)
             \<in> set (snd (snd (get_general_config rf mx dm p out)))"
    using get_general_config_log_motd [where rf = rf and p = p and cfg = cfg, OF assms(2,3)]
      get_motd_log_default [of cfg mx dm]
    by auto
  have nonempty: "motd ?out \<noteq> []" and terminated: "last (motd ?out) = NUL"
    unfolding m by simp_all
  from nonempty terminated len size dflt logged show ?thesis by blast
qed

theorem get_general_config_motd_witness:
  "motd (fst (snd (get_general_config (\<lambda>_. Some []) 5 ''tox-bootstrapd'' ''conf''
                     locals_at_entry))) \<noteq> []
   \<and> last (motd (fst (snd (get_general_config (\<lambda>_. Some []) 5 ''tox-bootstrapd'' ''conf''
                     locals_at_entry)))) = NUL
   \<and> length (motd (fst (snd (get_general_config (\<lambda>_. Some []) 5 ''tox-bootstrapd'' ''conf''
                     locals_at_entry)))) \<le> 5
   \<and> takeWhile (\<lambda>c. c \<noteq> NUL)
        (motd (fst (snd (get_general_config (\<lambda>_. Some []) 5 ''tox-bootstrapd'' ''conf''
                     locals_at_entry)))) = ''tox-''"
  using get_general_config_motd [of 5 "\<lambda>_. Some []" "''conf''" "[]" "''tox-bootstrapd''"
      locals_at_entry]
    get_general_config_Some(2) [of "\<lambda>_. Some []" "''conf''" "[]" 5 "''tox-bootstrapd''"
      locals_at_entry]
  by (simp add: config_lookup_bool_def config_lookup_string_def config_lookup_def
      DEFAULT_ENABLE_MOTD_def)

text \<open>
  C10: \<open>get_general_config\<close> returns 0 exactly when the file cannot be read or parsed,
  and then what the out-parameters point to is what it was at the call.
\<close>

theorem get_general_config_failure:
  "(fst (get_general_config rf mx dm p out) = 0 \<longleftrightarrow> rf p = None)
   \<and> (fst (get_general_config rf mx dm p out) = 0 \<longrightarrow>
        fst (snd (get_general_config rf mx dm p out)) = out)"
  by (cases "rf p") (simp_all add: get_general_config_def Let_def case_prod_beta)

theorem get_general_config_failure_witness:
  "fst (get_general_config (\<lambda>_. None) 256 ''tox-bootstrapd'' ''conf'' locals_at_entry) = 0
   \<and> fst (snd (get_general_config (\<lambda>_. None) 256 ''tox-bootstrapd'' ''conf'' locals_at_entry))
       = locals_at_entry"
  using get_general_config_failure [of "\<lambda>_. None" 256 "''tox-bootstrapd''" "''conf''"
      locals_at_entry]
  by simp

section \<open>Properties of bootstrap_from_config\<close>

lemma bootstrap_node_verdict:
  "fst (bootstrap_node w use_ipv6 node i) = [spec_verdict_line i (spec_node_verdict w use_ipv6 node)]"
  by (auto simp: bootstrap_node_def spec_node_verdict_def Let_def MIN_ALLOWED_PORT_def
      MAX_ALLOWED_PORT_def split: option.splits)

lemma bootstrap_node_spec_calls:
  "snd (bootstrap_node w use_ipv6 node i) = spec_node_calls w use_ipv6 node"
  by (auto simp: bootstrap_node_def spec_node_calls_def spec_node_verdict_def Let_def
      MIN_ALLOWED_PORT_def MAX_ALLOWED_PORT_def split: option.splits)

lemma config_setting_elems_remove_first:
  "config_setting_elems (config_setting_remove_elem node_list 0) = tl (config_setting_elems node_list)"
  by (cases node_list) (simp_all add: drop_Suc map_tl)

lemma bootstrap_loop_eq:
  "bootstrap_loop w use_ipv6 node_list i acc =
    (1,
     fst acc @ concat (map (\<lambda>(k, node). fst (bootstrap_node w use_ipv6 node k))
                         (enumerate i (config_setting_elems node_list))),
     snd acc @ concat (map (\<lambda>(k, node). snd (bootstrap_node w use_ipv6 node k))
                         (enumerate i (config_setting_elems node_list))))"
proof (induction w use_ipv6 node_list i acc rule: bootstrap_loop.induct)
  case (1 w use_ipv6 node_list i acc)
  show ?case
  proof (cases "config_setting_elems node_list")
    case Nil
    then show ?thesis
      by (subst bootstrap_loop.simps) (simp add: config_setting_length_def)
  next
    case (Cons node rest)
    then have len: "config_setting_length node_list \<noteq> 0"
      and first: "config_setting_get_elem node_list 0 = Some node"
      and rest: "config_setting_elems (config_setting_remove_elem node_list 0) = rest"
      by (simp_all add: config_setting_length_def config_setting_get_elem_def
          config_setting_elems_remove_first)
    show ?thesis
      using "1.IH" [OF len first]
      by (subst bootstrap_loop.simps) (simp add: len first rest Cons)
  qed
qed

lemma bootstrap_node_calls:
  "filter is_new_networking (snd (bootstrap_node w use_ipv6 node i)) = []"
  by (simp add: bootstrap_node_def Let_def split: option.splits)

lemma bootstrap_from_config_calls:
  "filter is_new_networking (snd (snd (bootstrap_from_config w p use_ipv6))) = []"
proof -
  have "filter is_new_networking
          (concat (map (\<lambda>(k, node). snd (bootstrap_node w use_ipv6 node k)) xs)) = []" for xs
    by (induction xs) (auto simp: bootstrap_node_calls)
  then show ?thesis
    by (simp add: bootstrap_from_config_def bootstrap_loop_eq split: option.splits)
qed

text \<open>
  C2: when the settings file parses, \<open>bootstrap_from_config\<close> returns 1, whatever the
  entries are. A missing \<open>bootstrap_nodes\<close> setting, or one with no element, only logs a
  warning. Otherwise the log has one line for each entry, in the order of declaration
  and numbered from 0: the line that the checks of \<open>spec_node_verdict\<close>, made in their fixed
  order on that entry alone, give it (a warning for an entry that is skipped). The calls
  to the engine are, in the same order, one for each entry that passed the checks before
  the resolution, with that entry's address, port and key; an entry skipped earlier is
  never handed to the engine, and nothing is called when there are no entries.
\<close>

theorem bootstrap_from_config_result:
  assumes "config_read_file w p = Some cfg"
  shows "fst (bootstrap_from_config w p use_ipv6) = 1
    \<and> fst (snd (bootstrap_from_config w p use_ipv6)) =
        (case config_lookup cfg NAME_BOOTSTRAP_NODES of
           None \<Rightarrow> [(LOG_LEVEL_WARNING, No_bootstrap_nodes_setting NAME_BOOTSTRAP_NODES)]
         | Some node_list \<Rightarrow>
             if config_setting_elems node_list = []
             then [(LOG_LEVEL_WARNING, No_bootstrap_nodes_found)]
             else map (\<lambda>(i, node). spec_verdict_line i (spec_node_verdict w use_ipv6 node))
                    (enumerate 0 (config_setting_elems node_list)))
    \<and> snd (snd (bootstrap_from_config w p use_ipv6)) =
        (case config_lookup cfg NAME_BOOTSTRAP_NODES of
           None \<Rightarrow> []
         | Some node_list \<Rightarrow>
             concat (map (spec_node_calls w use_ipv6) (config_setting_elems node_list)))"
proof -
  have lines: "concat (map (\<lambda>(k, node). fst (bootstrap_node w use_ipv6 node k)) xs)
      = map (\<lambda>(i, node). spec_verdict_line i (spec_node_verdict w use_ipv6 node)) xs" for xs
    by (induction xs) (auto simp: bootstrap_node_verdict)
  have "concat (map (\<lambda>(k, node). snd (bootstrap_node w use_ipv6 node k)) (enumerate n xs))
      = concat (map (spec_node_calls w use_ipv6) xs)" for n xs
    by (induction xs arbitrary: n) (simp_all add: bootstrap_node_spec_calls)
  with lines show ?thesis
    using assms
    by (simp add: bootstrap_from_config_def bootstrap_loop_eq config_setting_length_def
        split: option.splits)
qed

theorem bootstrap_from_config_result_witness:
  "bootstrap_from_config
     (example_world\<lparr>config_read_file := (\<lambda>_. Some
        [(NAME_BOOTSTRAP_NODES, CONFIG_TYPE_LIST
           [CONFIG_TYPE_GROUP [(NAME_PUBLIC_KEY, CONFIG_TYPE_STRING ''ABCD''),
                               (NAME_PORT, CONFIG_TYPE_INT 33445),
                               (NAME_ADDRESS, CONFIG_TYPE_STRING ''node.example.org'')],
            CONFIG_TYPE_GROUP [(NAME_PUBLIC_KEY, CONFIG_TYPE_STRING (replicate 64 CHR ''A'')),
                               (NAME_ADDRESS, CONFIG_TYPE_STRING ''198.51.100.7'')],
            CONFIG_TYPE_GROUP [(NAME_PUBLIC_KEY, CONFIG_TYPE_STRING (replicate 64 CHR ''A'')),
                               (NAME_PORT, CONFIG_TYPE_INT 33445),
                               (NAME_ADDRESS, CONFIG_TYPE_STRING ''198.51.100.7'')]])])\<rparr>)
     ''conf'' True
   = (1,
      [(LOG_LEVEL_WARNING, Node_invalid_str 0 NAME_PUBLIC_KEY ''ABCD''),
       (LOG_LEVEL_WARNING, Node_setting_not_found 1 NAME_PORT),
       (LOG_LEVEL_INFO, Node_added 2 ''198.51.100.7'' 33445 (replicate 64 CHR ''A''))],
      [Call_DHT_bootstrap_from_address ''198.51.100.7'' True 33445 []])"
proof -
  let ?cfg = "[(NAME_BOOTSTRAP_NODES, CONFIG_TYPE_LIST
           [CONFIG_TYPE_GROUP [(NAME_PUBLIC_KEY, CONFIG_TYPE_STRING ''ABCD''),
                               (NAME_PORT, CONFIG_TYPE_INT 33445),
                               (NAME_ADDRESS, CONFIG_TYPE_STRING ''node.example.org'')],
            CONFIG_TYPE_GROUP [(NAME_PUBLIC_KEY, CONFIG_TYPE_STRING (replicate 64 CHR ''A'')),
                               (NAME_ADDRESS, CONFIG_TYPE_STRING ''198.51.100.7'')],
            CONFIG_TYPE_GROUP [(NAME_PUBLIC_KEY, CONFIG_TYPE_STRING (replicate 64 CHR ''A'')),
                               (NAME_PORT, CONFIG_TYPE_INT 33445),
                               (NAME_ADDRESS, CONFIG_TYPE_STRING ''198.51.100.7'')]])]"
  let ?w = "example_world\<lparr>config_read_file := (\<lambda>_. Some ?cfg)\<rparr>"
  have "fst (bootstrap_from_config ?w ''conf'' True) = 1
      \<and> fst (snd (bootstrap_from_config ?w ''conf'' True)) =
      [(LOG_LEVEL_WARNING, Node_invalid_str 0 NAME_PUBLIC_KEY ''ABCD''),
       (LOG_LEVEL_WARNING, Node_setting_not_found 1 NAME_PORT),
       (LOG_LEVEL_INFO, Node_added 2 ''198.51.100.7'' 33445 (replicate 64 CHR ''A''))]
      \<and> snd (snd (bootstrap_from_config ?w ''conf'' True))
          = [Call_DHT_bootstrap_from_address ''198.51.100.7'' True 33445 []]"
    using bootstrap_from_config_result [of ?w "''conf''" ?cfg True]
    by (simp add: config_lookup_def enumerate_eq_zip upt_rec spec_node_verdict_def
        spec_node_calls_def example_world_def strlen_def)
  then show ?thesis by (simp add: prod_eq_iff)
qed

section \<open>Properties of main\<close>

lemma and_then_Inl: "fst r = Inl e \<Longrightarrow> fst (and_then r f) = Inl e"
  by (cases r) (simp add: and_then_def)

lemma and_then_Inr: "fst r = Inr x \<Longrightarrow> and_then r f = f x (snd r)"
  by (cases r) (simp add: and_then_def)


lemma and_then_Inl_cases:
  assumes "fst (and_then r f) = Inl e"
  shows "fst r = Inl e \<or> (\<exists>x. fst r = Inr x \<and> and_then r f = f x (snd r))"
  using assms by (cases r; cases "fst r") (auto simp: and_then_def)

lemma main_config_result:
  "fst (main_config w p out st) = Inl 1
   \<or> fst (main_config w p out st)
       = Inr (fst (snd (get_general_config (config_read_file w) (MAX_MOTD_LENGTH w)
                          (DAEMON_NAME w) p out)))"
  by (simp add: main_config_def Let_def case_prod_beta)

lemma main_config_listen_port:
  assumes "config_read_file w p = Some cfg"
  shows "(\<exists>c. fst (main_config w p out st) = Inr c) \<longleftrightarrow>
     1 \<le> sint (case config_lookup_int cfg NAME_PORT of Some v \<Rightarrow> v | None \<Rightarrow> DEFAULT_PORT)
     \<and> sint (case config_lookup_int cfg NAME_PORT of Some v \<Rightarrow> v | None \<Rightarrow> DEFAULT_PORT) \<le> 65535"
  using get_general_config_Some(1,7) [where rf = "config_read_file w" and p = p and cfg = cfg
      and mx = "MAX_MOTD_LENGTH w" and dm = "DAEMON_NAME w" and out = out] assms
  by (auto simp add: main_config_def Let_def case_prod_beta MIN_ALLOWED_PORT_def MAX_ALLOWED_PORT_def)

lemma main_config_empty_file:
  assumes "config_read_file w p = Some []" and "MAX_MOTD_LENGTH w = 256"
    and "DAEMON_NAME w = ''tox-bootstrapd''"
  shows "fst (main_config w p out st) = Inr default_config"
  using assms get_general_config_empty_file [of "config_read_file w" p out]
    get_general_config_Some(1) [of "config_read_file w" p "[]" 256 "''tox-bootstrapd''" out]
  by (simp add: main_config_def case_prod_beta Let_def MIN_ALLOWED_PORT_def MAX_ALLOWED_PORT_def
      default_config_def)

lemma main_networking_result:
  "fst (main_networking w c st) = Inl 1
   \<or> fst (main_networking w c st) = Inr c
   \<or> fst (main_networking w c st) = Inr (c\<lparr>enable_ipv6 := False\<rparr>)"
  by (simp add: main_networking_def Let_def)

lemma main_dht_onion_result:
  "fst (main_dht_onion w st) = Inl 1 \<or> (\<exists>dht. fst (main_dht_onion w st) = Inr dht)"
  by (simp add: main_dht_onion_def Let_def split: option.splits)

lemma main_motd_result:
  "fst (main_motd w c st) = Inl 1 \<or> fst (main_motd w c st) = Inr ()"
  by (simp add: main_motd_def Let_def)

lemma main_keys_result:
  "fst (main_keys w c dht st) = Inl 1 \<or> (\<exists>dht'. fst (main_keys w c dht st) = Inr dht')"
  by (simp add: main_keys_def Let_def case_prod_beta)

lemma main_tcp_relay_result:
  "fst (main_tcp_relay w c dht st) = Inl 1 \<or> fst (main_tcp_relay w c dht st) = Inr ()"
  by (simp add: main_tcp_relay_def Let_def)


lemma main_bootstrap_result:
  "fst (main_bootstrap w p c dht st) = Inl 1 \<or> fst (main_bootstrap w p c dht st) = Inr ()"
  by (simp add: main_bootstrap_def Let_def case_prod_beta)





lemma networking_calls_write_log [simp]:
  "networking_calls (write_log level msg st) = networking_calls st"
  by (simp add: networking_calls_def write_log_def)

lemma networking_calls_call [simp]:
  "networking_calls (call e st) = networking_calls st @ (if is_new_networking e then [e] else [])"
  by (simp add: networking_calls_def call_def)

lemma networking_calls_and_then:
  assumes "\<And>x st. networking_calls (snd (f x st)) = networking_calls st"
  shows "networking_calls (snd (and_then r f)) = networking_calls (snd r)"
  by (cases r; cases "fst r") (auto simp: and_then_def assms)

lemma networking_calls_main_config:
  "networking_calls (snd (main_config w p out st)) = networking_calls st"
  by (simp add: main_config_def Let_def case_prod_beta networking_calls_def write_log_def)

lemma networking_calls_main_pid_check:
  "networking_calls (main_pid_check c st) = networking_calls st"
  by (simp add: main_pid_check_def)

lemma networking_calls_main_dht_onion:
  "networking_calls (snd (main_dht_onion w st)) = networking_calls st"
  by (simp add: main_dht_onion_def Let_def split: option.splits)

lemma networking_calls_main_motd:
  "networking_calls (snd (main_motd w c st)) = networking_calls st"
  by (simp add: main_motd_def Let_def)

lemma networking_calls_main_keys:
  "networking_calls (snd (main_keys w c dht st)) = networking_calls st"
  by (simp add: main_keys_def Let_def case_prod_beta networking_calls_def write_log_def)

lemma networking_calls_main_tcp_relay:
  "networking_calls (snd (main_tcp_relay w c dht st)) = networking_calls st"
  by (simp add: main_tcp_relay_def Let_def)

lemma networking_calls_main_bootstrap:
  "networking_calls (snd (main_bootstrap w p c dht st)) = networking_calls st"
  using bootstrap_from_config_calls [of w p "enable_ipv6 c"]
  by (simp add: main_bootstrap_def Let_def case_prod_beta networking_calls_def write_log_def)

lemma networking_calls_main_daemonize:
  "networking_calls (snd (main_daemonize w log_backend c st)) = networking_calls st"
  by (simp add: main_daemonize_def Let_def)

lemma networking_calls_main_loop_init:
  "networking_calls (snd (main_loop_init c st)) = networking_calls st"
  by (simp add: main_loop_init_def)

lemma networking_calls_after_networking:
  "networking_calls
     (snd (and_then (main_dht_onion w st)
      (\<lambda>dht0 st. and_then (main_motd w c st)
      (\<lambda>_ st. and_then (main_keys w c dht0 st)
      (\<lambda>dht st. and_then (main_tcp_relay w c dht st)
      (\<lambda>_ st. and_then (main_bootstrap w cfg_file_path c dht st)
      (\<lambda>_ st. and_then (main_daemonize w log_backend c st)
      (\<lambda>_ st. (Inr (c, fst (main_loop_init c st)), snd (main_loop_init c st)))))))))) =
   networking_calls st"
  by (simp add: networking_calls_and_then networking_calls_main_dht_onion
      networking_calls_main_motd networking_calls_main_keys networking_calls_main_tcp_relay
      networking_calls_main_bootstrap networking_calls_main_daemonize
      networking_calls_main_loop_init)

lemma main_networking_failed:
  assumes "\<not> new_networking w (enable_ipv6 c) (ucast (port c))"
  shows "fst (main_networking w c st) =
      (if enable_ipv6 c \<and> enable_ipv4_fallback c \<and> new_networking w False (ucast (port c))
       then Inr (c\<lparr>enable_ipv6 := False\<rparr>) else Inl 1)"
    and "networking_calls (snd (main_networking w c st)) =
      networking_calls st @
      (if enable_ipv6 c \<and> enable_ipv4_fallback c
       then [Call_new_networking True (ucast (port c)), Call_new_networking False (ucast (port c))]
       else [Call_new_networking (enable_ipv6 c) (ucast (port c))])"
  using assms by (auto simp: main_networking_def Let_def)

text \<open>
  C9: let the configuration have been read and its listen port accepted, and let the
  first \<open>new_networking\<close> fail. Over the whole of \<open>main\<close>, \<open>new_networking\<close> is then
  called exactly twice, the second time for IPv4, when \<open>enable_ipv6\<close> and
  \<open>enable_ipv4_fallback\<close> are both set, and exactly once otherwise. Unless both are set
  and the second call succeeds, \<open>main\<close> ends with exit status 1; when it succeeds, the
  configuration goes on with \<open>enable_ipv6\<close> cleared.
\<close>

theorem networking_fallback:
  assumes "fst (main_config w p out
              (write_log LOG_LEVEL_INFO
                 (Running_version (DAEMON_NAME w) (DAEMON_VERSION_NUMBER w))
                 \<lparr>log_lines = [], calls = [], fsys = fs\<rparr>)) = Inr c"
    and "\<not> new_networking w (enable_ipv6 c) (ucast (port c))"
  shows "networking_calls (snd (main w p log_backend out fs)) =
      (if enable_ipv6 c \<and> enable_ipv4_fallback c
       then [Call_new_networking True (ucast (port c)), Call_new_networking False (ucast (port c))]
       else [Call_new_networking (enable_ipv6 c) (ucast (port c))])
    \<and> ((enable_ipv6 c \<and> enable_ipv4_fallback c \<and> new_networking w False (ucast (port c)))
        \<or> fst (main w p log_backend out fs) = Inl 1)
    \<and> fst (main_networking w c st) =
        (if enable_ipv6 c \<and> enable_ipv4_fallback c \<and> new_networking w False (ucast (port c))
         then Inr (c\<lparr>enable_ipv6 := False\<rparr>) else Inl 1)"
proof -
  let ?st0 = "write_log LOG_LEVEL_INFO
                 (Running_version (DAEMON_NAME w) (DAEMON_VERSION_NUMBER w))
                 \<lparr>log_lines = [], calls = [], fsys = fs\<rparr>"
  let ?st1 = "main_pid_check c (snd (main_config w p out ?st0))"
  have none: "networking_calls ?st1 = []"
    by (simp add: networking_calls_main_pid_check networking_calls_main_config)
       (simp add: networking_calls_def write_log_def)
  have m: "main w p log_backend out fs =
      and_then (main_networking w c ?st1)
      (\<lambda>c st. and_then (main_dht_onion w st)
      (\<lambda>dht0 st. and_then (main_motd w c st)
      (\<lambda>_ st. and_then (main_keys w c dht0 st)
      (\<lambda>dht st. and_then (main_tcp_relay w c dht st)
      (\<lambda>_ st. and_then (main_bootstrap w p c dht st)
      (\<lambda>_ st. and_then (main_daemonize w log_backend c st)
      (\<lambda>_ st. (Inr (c, fst (main_loop_init c st)), snd (main_loop_init c st)))))))))"
    unfolding main_def by (subst and_then_Inr [OF assms(1)]) simp
  have calls: "networking_calls (snd (main w p log_backend out fs))
      = networking_calls (snd (main_networking w c ?st1))"
    unfolding m by (rule networking_calls_and_then) (rule networking_calls_after_networking)
  have exit: "fst (main w p log_backend out fs) = Inl 1"
    if "\<not> (enable_ipv6 c \<and> enable_ipv4_fallback c \<and> new_networking w False (ucast (port c)))"
    unfolding m using main_networking_failed(1) [OF assms(2), of ?st1] that
    by (intro and_then_Inl) simp
  show ?thesis
    using calls main_networking_failed(2) [OF assms(2), of ?st1] none exit
      main_networking_failed(1) [OF assms(2), of st]
    by auto
qed

theorem networking_fallback_witness:
  "networking_calls
     (snd (main (example_world\<lparr>new_networking := (\<lambda>_ _. False)\<rparr>) ''conf'' LOG_BACKEND_SYSLOG
             locals_at_entry example_files))
     = [Call_new_networking True 33445, Call_new_networking False 33445]
   \<and> fst (main (example_world\<lparr>new_networking := (\<lambda>_ _. False)\<rparr>) ''conf'' LOG_BACKEND_SYSLOG
             locals_at_entry example_files) = Inl 1"
  using networking_fallback
    [of "example_world\<lparr>new_networking := (\<lambda>_ _. False)\<rparr>" "''conf''" locals_at_entry
        example_files default_config LOG_BACKEND_SYSLOG]
    main_config_empty_file [of "example_world\<lparr>new_networking := (\<lambda>_ _. False)\<rparr>" "''conf''"]
  by (simp add: example_world_def default_config_def)

lemma main_daemonize_parent:
  assumes "fst (main_daemonize w log_backend c st) = Inl 0"
  shows "0 < fork w"
    and "calls (snd (main_daemonize w log_backend c st)) =
          calls st @ [Call_fopen (pid_file_path c) ''a+'', Call_fork,
                      Call_fprintf_pidf (fork w), Call_fclose_pidf]"
  using assms by (auto simp: main_daemonize_def Let_def call_def write_log_def split: if_splits)

lemma main_returns_0_from_daemonize:
  assumes "fst (main w p log_backend out fs) = Inl 0"
  shows "\<exists>c st. snd (main w p log_backend out fs) = snd (main_daemonize w log_backend c st)
           \<and> fst (main_daemonize w log_backend c st) = Inl 0"
proof -
  let ?st0 = "write_log LOG_LEVEL_INFO (Running_version (DAEMON_NAME w) (DAEMON_VERSION_NUMBER w))
            \<lparr>log_lines = [], calls = [], fsys = fs\<rparr>"
  let ?k7 = "\<lambda>c (_ :: unit) st. (Inr (c, fst (main_loop_init c st)), snd (main_loop_init c st))
               :: (int + general_config \<times> loop_state) \<times> run_state"
  let ?k6 = "\<lambda>c (_ :: unit) st. and_then (main_daemonize w log_backend c st) (?k7 c)"
  let ?k5 = "\<lambda>c dht (_ :: unit) st. and_then (main_bootstrap w p c dht st) (?k6 c)"
  let ?k4 = "\<lambda>c dht st. and_then (main_tcp_relay w c dht st) (?k5 c dht)"
  let ?k3 = "\<lambda>c dht0 (_ :: unit) st. and_then (main_keys w c dht0 st) (?k4 c)"
  let ?k2 = "\<lambda>c dht0 st. and_then (main_motd w c st) (?k3 c dht0)"
  let ?k1 = "\<lambda>c st. and_then (main_dht_onion w st) (?k2 c)"
  let ?k0 = "\<lambda>c0 st. and_then (main_networking w c0 (main_pid_check c0 st)) ?k1"
  have m: "main w p log_backend out fs = and_then (main_config w p out ?st0) ?k0"
    by (simp add: main_def)
  from assms obtain c0 where 0: "main w p log_backend out fs = ?k0 c0 (snd (main_config w p out ?st0))"
    unfolding m using and_then_Inl_cases [of "main_config w p out ?st0" ?k0 0]
      main_config_result [of w p out ?st0] by auto
  let ?s0 = "main_pid_check c0 (snd (main_config w p out ?st0))"
  from assms 0 obtain c where 1: "main w p log_backend out fs = ?k1 c (snd (main_networking w c0 ?s0))"
    using and_then_Inl_cases [of "main_networking w c0 ?s0" ?k1 0]
      main_networking_result [of w c0 ?s0] by auto
  let ?s1 = "snd (main_networking w c0 ?s0)"
  from assms 1 obtain dht0 where 2: "main w p log_backend out fs = ?k2 c dht0 (snd (main_dht_onion w ?s1))"
    using and_then_Inl_cases [of "main_dht_onion w ?s1" "?k2 c" 0]
      main_dht_onion_result [of w ?s1] by auto
  let ?s2 = "snd (main_dht_onion w ?s1)"
  from assms 2 have 3: "main w p log_backend out fs = ?k3 c dht0 () (snd (main_motd w c ?s2))"
    using and_then_Inl_cases [of "main_motd w c ?s2" "?k3 c dht0" 0]
      main_motd_result [of w c ?s2] by auto
  let ?s3 = "snd (main_motd w c ?s2)"
  from assms 3 obtain dht where 4: "main w p log_backend out fs = ?k4 c dht (snd (main_keys w c dht0 ?s3))"
    using and_then_Inl_cases [of "main_keys w c dht0 ?s3" "?k4 c" 0]
      main_keys_result [of w c dht0 ?s3] by auto
  let ?s4 = "snd (main_keys w c dht0 ?s3)"
  from assms 4 have 5: "main w p log_backend out fs = ?k5 c dht () (snd (main_tcp_relay w c dht ?s4))"
    using and_then_Inl_cases [of "main_tcp_relay w c dht ?s4" "?k5 c dht" 0]
      main_tcp_relay_result [of w c dht ?s4] by auto
  let ?s5 = "snd (main_tcp_relay w c dht ?s4)"
  from assms 5 have 6: "main w p log_backend out fs = ?k6 c () (snd (main_bootstrap w p c dht ?s5))"
    using and_then_Inl_cases [of "main_bootstrap w p c dht ?s5" "?k6 c" 0]
      main_bootstrap_result [of w p c dht ?s5] by auto
  let ?s6 = "snd (main_bootstrap w p c dht ?s5)"
  from assms 6 have "fst (main_daemonize w log_backend c ?s6) = Inl 0
      \<and> snd (main w p log_backend out fs) = snd (main_daemonize w log_backend c ?s6)"
    using and_then_Inl_cases [of "main_daemonize w log_backend c ?s6" "?k7 c" 0]
    by (cases "main_daemonize w log_backend c ?s6"; cases "fst (main_daemonize w log_backend c ?s6)")
       (auto simp: and_then_def)
  then show ?thesis by blast
qed

lemma main_example_parent:
  "fst (main (example_world\<lparr>fork := 4321\<rparr>) ''conf'' LOG_BACKEND_SYSLOG locals_at_entry
          example_files) = Inl 0"
proof -
  let ?w = "example_world\<lparr>fork := 4321\<rparr>"
  let ?st0 = "write_log LOG_LEVEL_INFO (Running_version (DAEMON_NAME ?w) (DAEMON_VERSION_NUMBER ?w))
            \<lparr>log_lines = [], calls = [], fsys = example_files\<rparr>"
  have cfg: "fst (main_config ?w ''conf'' locals_at_entry ?st0) = Inr default_config"
    by (rule main_config_empty_file) (simp_all add: example_world_def)
  have net: "fst (main_networking ?w default_config st) = Inr default_config" for st
    by (simp add: main_networking_def Let_def example_world_def)
  have dht: "fst (main_dht_onion ?w st) =
      Inr \<lparr>self_public_key = replicate 32 1, self_secret_key = replicate 32 2\<rparr>" for st
    by (simp add: main_dht_onion_def Let_def example_world_def)
  have motd: "fst (main_motd ?w default_config st) = Inr ()" for st
    by (simp add: main_motd_def Let_def example_world_def)
  have fsys: "fsys (snd (main_dht_onion ?w st)) = fsys st"
    "fsys (snd (main_motd ?w c st)) = fsys st"
    "fsys (snd (main_networking ?w c st)) = fsys st"
    "fsys (main_pid_check c st) = fsys st"
    "fsys (snd (main_config ?w p out st)) = fsys st" for st c p out
    by (simp_all add: main_dht_onion_def main_motd_def main_networking_def main_pid_check_def
        main_config_def Let_def call_def write_log_def case_prod_beta split: option.splits)
  have keys: "fst (main_keys ?w default_config
        \<lparr>self_public_key = replicate 32 1, self_secret_key = replicate 32 2\<rparr> st) =
      Inr \<lparr>self_public_key = replicate 32 1, self_secret_key = replicate 32 2\<rparr>"
    if "fsys st = example_files" for st
    using that
    by (simp add: main_keys_def manage_keys_def Let_def example_world_def example_files_def
        default_config_def)
  have tcp: "fst (main_tcp_relay ?w default_config dht st) = Inr ()" for dht st
    by (simp add: main_tcp_relay_def Let_def example_world_def default_config_def)
  have boot: "fst (main_bootstrap ?w ''conf'' default_config dht st) = Inr ()" for dht st
    by (simp add: main_bootstrap_def bootstrap_from_config_def config_lookup_def Let_def
        example_world_def)
  have daemon: "fst (main_daemonize ?w LOG_BACKEND_SYSLOG default_config st) = Inl 0" for st
    by (simp add: main_daemonize_def Let_def example_world_def)
  show ?thesis
    unfolding main_def
    apply (subst and_then_Inr [OF cfg])
    apply (subst and_then_Inr [OF net])
    apply (subst and_then_Inr [OF dht])
    apply (subst and_then_Inr [OF motd])
    apply (subst and_then_Inr [OF keys])
     apply (simp add: fsys write_log_def)
    apply (subst and_then_Inr [OF tcp])
    apply (subst and_then_Inr [OF boot])
    apply (rule and_then_Inl [OF daemon])
    done
qed

text \<open>
  C8: with the PID file open, in the parent (\<open>fork\<close> returns the child's positive id) the
  id is written to the open PID file, the file is closed, and \<open>main\<close> returns 0. In the
  child (\<open>fork\<close> returns 0) the PID file is closed, a new session is created and the
  working directory becomes \<open>/\<close>; the three standard streams are closed unless the
  log backend is stdout; and \<open>main\<close> goes on to the loop. A failed \<open>fork\<close>, \<open>setsid\<close> or
  \<open>chdir\<close> ends \<open>main\<close> with exit status 1. And \<open>main\<close> as a whole returns 0 only in
  the parent, its last calls being the \<open>fork\<close>, the write of the child's id and the
  close of the PID file.
\<close>

theorem daemonize:
  "(fopen_append w (pid_file_path c) \<and> 0 < fork w \<longrightarrow>
      fst (main_daemonize w log_backend c st) = Inl 0
      \<and> calls (snd (main_daemonize w log_backend c st)) =
          calls st @ [Call_fopen (pid_file_path c) ''a+'', Call_fork,
                      Call_fprintf_pidf (fork w), Call_fclose_pidf])
   \<and> (fopen_append w (pid_file_path c) \<and> fork w = 0 \<and> 0 \<le> setsid w \<and> 0 \<le> chdir w ''/'' \<longrightarrow>
      fst (main_daemonize w log_backend c st) = Inr ()
      \<and> calls (snd (main_daemonize w log_backend c st)) =
          calls st @ [Call_fopen (pid_file_path c) ''a+'', Call_fork, Call_fclose_pidf,
                      Call_umask 0, Call_setsid, Call_chdir ''/'']
          @ (if log_backend = LOG_BACKEND_STDOUT then []
             else [Call_close STDOUT_FILENO, Call_close STDIN_FILENO, Call_close STDERR_FILENO]))
   \<and> (fopen_append w (pid_file_path c) \<and>
       (fork w < 0 \<or> fork w = 0 \<and> (setsid w < 0 \<or> chdir w ''/'' < 0)) \<longrightarrow>
      fst (main_daemonize w log_backend c st) = Inl 1)
   \<and> (fst (main w p log_backend out fs) = Inl 0 \<longrightarrow>
      0 < fork w
      \<and> (\<exists>before. calls (snd (main w p log_backend out fs)) =
            before @ [Call_fork, Call_fprintf_pidf (fork w), Call_fclose_pidf]))"
proof -
  have stage: "(fopen_append w (pid_file_path c) \<and> 0 < fork w \<longrightarrow>
      fst (main_daemonize w log_backend c st) = Inl 0
      \<and> calls (snd (main_daemonize w log_backend c st)) =
          calls st @ [Call_fopen (pid_file_path c) ''a+'', Call_fork,
                      Call_fprintf_pidf (fork w), Call_fclose_pidf])
   \<and> (fopen_append w (pid_file_path c) \<and> fork w = 0 \<and> 0 \<le> setsid w \<and> 0 \<le> chdir w ''/'' \<longrightarrow>
      fst (main_daemonize w log_backend c st) = Inr ()
      \<and> calls (snd (main_daemonize w log_backend c st)) =
          calls st @ [Call_fopen (pid_file_path c) ''a+'', Call_fork, Call_fclose_pidf,
                      Call_umask 0, Call_setsid, Call_chdir ''/'']
          @ (if log_backend = LOG_BACKEND_STDOUT then []
             else [Call_close STDOUT_FILENO, Call_close STDIN_FILENO, Call_close STDERR_FILENO]))
   \<and> (fopen_append w (pid_file_path c) \<and>
       (fork w < 0 \<or> fork w = 0 \<and> (setsid w < 0 \<or> chdir w ''/'' < 0)) \<longrightarrow>
      fst (main_daemonize w log_backend c st) = Inl 1)"
    by (auto simp: main_daemonize_def Let_def call_def write_log_def)
  have parent: "0 < fork w
      \<and> (\<exists>before. calls (snd (main w p log_backend out fs)) =
            before @ [Call_fork, Call_fprintf_pidf (fork w), Call_fclose_pidf])"
    if "fst (main w p log_backend out fs) = Inl 0"
  proof -
    from main_returns_0_from_daemonize [OF that] obtain c' st'
      where s: "snd (main w p log_backend out fs) = snd (main_daemonize w log_backend c' st')"
        and e: "fst (main_daemonize w log_backend c' st') = Inl 0"
      by blast
    have "calls (snd (main w p log_backend out fs)) =
        (calls st' @ [Call_fopen (pid_file_path c') ''a+''])
        @ [Call_fork, Call_fprintf_pidf (fork w), Call_fclose_pidf]"
      using main_daemonize_parent(2) [OF e] s by simp
    with main_daemonize_parent(1) [OF e] show ?thesis by blast
  qed
  from stage parent show ?thesis by blast
qed

theorem daemonize_witness:
  "fst (main (example_world\<lparr>fork := 4321\<rparr>) ''conf'' LOG_BACKEND_SYSLOG locals_at_entry
          example_files) = Inl 0
   \<and> (\<exists>before. calls (snd (main (example_world\<lparr>fork := 4321\<rparr>) ''conf'' LOG_BACKEND_SYSLOG
                              locals_at_entry example_files)) =
         before @ [Call_fork, Call_fprintf_pidf 4321, Call_fclose_pidf])
   \<and> calls (snd (main_daemonize example_world LOG_BACKEND_SYSLOG default_config
          \<lparr>log_lines = [], calls = [], fsys = example_files\<rparr>)) =
       [Call_fopen ''tox-bootstrapd.pid'' ''a+'', Call_fork, Call_fclose_pidf, Call_umask 0,
        Call_setsid, Call_chdir ''/'', Call_close STDOUT_FILENO, Call_close STDIN_FILENO,
        Call_close STDERR_FILENO]
   \<and> fst (main_daemonize (example_world\<lparr>setsid := - 1\<rparr>) LOG_BACKEND_SYSLOG default_config
          \<lparr>log_lines = [], calls = [], fsys = example_files\<rparr>) = Inl 1"
  using daemonize [of "example_world\<lparr>fork := 4321\<rparr>" default_config LOG_BACKEND_SYSLOG
      "\<lparr>log_lines = [], calls = [], fsys = example_files\<rparr>" "''conf''" locals_at_entry
      example_files]
    daemonize [of example_world default_config LOG_BACKEND_SYSLOG
      "\<lparr>log_lines = [], calls = [], fsys = example_files\<rparr>"]
    daemonize [of "example_world\<lparr>setsid := - 1\<rparr>" default_config LOG_BACKEND_SYSLOG
      "\<lparr>log_lines = [], calls = [], fsys = example_files\<rparr>"]
    main_example_parent
  by (simp add: example_world_def default_config_def)

section \<open>Properties of the main loop\<close>

lemma connected_lines_write_log:
  "connected_lines (write_log level msg st) =
     connected_lines st
     + (if (level, msg) = (LOG_LEVEL_INFO, Connected_to_other_bootstrap_node) then 1 else 0)"
  by (simp add: connected_lines_def write_log_def)

lemma connected_lines_call [simp]: "connected_lines (call e st) = connected_lines st"
  by (simp add: connected_lines_def call_def)

lemma main_loop_body_waiting:
  "waiting_for_dht_connection (fst (main_loop_body w c k s))
     = (waiting_for_dht_connection (fst s) \<and> \<not> DHT_isconnected w k)"
  by (cases s) (auto simp add: main_loop_body_def Let_def case_prod_beta)

lemma main_loop_body_lines:
  "connected_lines (snd (main_loop_body w c k s))
     = connected_lines (snd s)
       + (if waiting_for_dht_connection (fst s) \<and> DHT_isconnected w k then 1 else 0)"
  by (cases s) (auto simp add: main_loop_body_def Let_def case_prod_beta connected_lines_write_log)

lemma waiting_at_Suc:
  "waiting_at w c s (Suc n) = (waiting_at w c s n \<and> \<not> DHT_isconnected w n)"
  by (simp add: waiting_at_def main_loop_body_waiting main_loop_body_lines)

lemma waiting_at_iff:
  "waiting_at w c s n = (waiting_at w c s 0 \<and> (\<forall>k < n. \<not> DHT_isconnected w k))"
  by (induction n) (auto simp: waiting_at_Suc less_Suc_eq)

lemma connected_logged_at_iff:
  "connected_logged_at w c s k = (waiting_at w c s k \<and> \<not> waiting_at w c s (Suc k))"
  by (auto simp: connected_logged_at_def waiting_at_def main_loop_body_waiting main_loop_body_lines)

lemma connected_lines_main_loop:
  "connected_lines (snd (main_loop w c n s)) =
     connected_lines (snd s) + (if waiting_at w c s 0 \<and> \<not> waiting_at w c s n then 1 else 0)"
proof (induction n)
  case 0
  show ?case by simp
next
  case (Suc n)
  have "waiting_at w c s n \<Longrightarrow> waiting_at w c s 0"
    using waiting_at_iff [of w c s n] by simp
  then show ?case
    using Suc waiting_at_Suc [of w c s n]
    by (auto simp: main_loop_body_waiting main_loop_body_lines waiting_at_def)
qed

text \<open>
  C7 (as stated, refuted): the connected line is logged exactly once in every run. When
  the engine never reports a connection, no iteration logs it.
\<close>

theorem connected_line_counterexample:
  "\<not> (\<exists>!k. connected_logged_at example_world default_config
              (main_loop_init default_config \<lparr>log_lines = [], calls = [], fsys = example_files\<rparr>) k)"
  by (auto simp add: connected_logged_at_iff waiting_at_Suc example_world_def)

text \<open>
  C7 (amended): once \<open>waiting_for_dht_connection\<close> is cleared it stays cleared in every
  later iteration; the connected line is logged in exactly the iteration that clears it,
  so in at most one iteration; after any number of iterations the log has one connected
  line more than at the start if the variable was set at the start and has been cleared,
  and none more otherwise. If the engine reports a connection in some iteration, exactly
  one iteration logs the line; if it never does, none logs it.
\<close>

theorem connection_state_monotone:
  "(\<not> waiting_at w c s n \<longrightarrow> \<not> waiting_at w c s (n + m))
   \<and> (connected_logged_at w c s k \<longleftrightarrow> waiting_at w c s k \<and> \<not> waiting_at w c s (Suc k))
   \<and> (connected_logged_at w c s k \<and> connected_logged_at w c s k' \<longrightarrow> k = k')
   \<and> connected_lines (snd (main_loop w c n s)) =
       connected_lines (snd s) + (if waiting_at w c s 0 \<and> \<not> waiting_at w c s n then 1 else 0)
   \<and> (waiting_at w c s 0 \<and> (\<exists>j. DHT_isconnected w j) \<longrightarrow> (\<exists>!k. connected_logged_at w c s k))
   \<and> ((\<forall>j. \<not> DHT_isconnected w j) \<longrightarrow> (\<forall>k. \<not> connected_logged_at w c s k))"
proof -
  have mono: "\<not> waiting_at w c s n \<Longrightarrow> \<not> waiting_at w c s (n + m)"
    using waiting_at_iff [of w c s n] waiting_at_iff [of w c s "n + m"] by auto
  have once: "k = k'" if "connected_logged_at w c s k" "connected_logged_at w c s k'" for k k'
  proof -
    from that have a: "\<forall>j < k. \<not> DHT_isconnected w j" "DHT_isconnected w k"
      and b: "\<forall>j < k'. \<not> DHT_isconnected w j" "DHT_isconnected w k'"
      using waiting_at_iff [of w c s k] waiting_at_iff [of w c s k']
      by (auto simp: connected_logged_at_iff waiting_at_Suc)
    then show ?thesis by (meson linorder_neqE_nat)
  qed
  have ex: "\<exists>k. connected_logged_at w c s k" if "waiting_at w c s 0" "DHT_isconnected w j" for j
  proof -
    define k where "k = (LEAST j. DHT_isconnected w j)"
    have "DHT_isconnected w k" unfolding k_def using that(2) by (rule LeastI)
    moreover have "\<forall>i < k. \<not> DHT_isconnected w i"
      unfolding k_def using not_less_Least by blast
    ultimately have "connected_logged_at w c s k"
      using that(1) waiting_at_iff [of w c s k]
      by (simp add: connected_logged_at_iff waiting_at_Suc)
    then show ?thesis ..
  qed
  have never: "\<not> connected_logged_at w c s k" if "\<forall>j. \<not> DHT_isconnected w j" for k
    using that by (simp add: connected_logged_at_iff waiting_at_Suc)
  show ?thesis
    using mono once ex never connected_logged_at_iff [of w c s k]
      connected_lines_main_loop [of w c n s]
    by (intro conjI impI) blast+
qed

theorem connection_state_monotone_witness:
  "waiting_at (example_world\<lparr>DHT_isconnected := (\<lambda>k. 2 \<le> k)\<rparr>) default_config
      (main_loop_init default_config \<lparr>log_lines = [], calls = [], fsys = example_files\<rparr>) 2
   \<and> \<not> waiting_at (example_world\<lparr>DHT_isconnected := (\<lambda>k. 2 \<le> k)\<rparr>) default_config
      (main_loop_init default_config \<lparr>log_lines = [], calls = [], fsys = example_files\<rparr>) (3 + 4)
   \<and> connected_lines (snd (main_loop (example_world\<lparr>DHT_isconnected := (\<lambda>k. 2 \<le> k)\<rparr>)
        default_config 3
        (main_loop_init default_config \<lparr>log_lines = [], calls = [], fsys = example_files\<rparr>))) = 1
   \<and> (\<exists>!k. connected_logged_at (example_world\<lparr>DHT_isconnected := (\<lambda>k. 2 \<le> k)\<rparr>) default_config
      (main_loop_init default_config \<lparr>log_lines = [], calls = [], fsys = example_files\<rparr>) k)"
proof -
  let ?w = "example_world\<lparr>DHT_isconnected := (\<lambda>k. 2 \<le> k)\<rparr>"
  let ?s = "main_loop_init default_config \<lparr>log_lines = [], calls = [], fsys = example_files\<rparr>"
  have w0: "waiting_at ?w default_config ?s 0"
    by (simp add: waiting_at_def main_loop_init_def)
  have w2: "waiting_at ?w default_config ?s 2"
    using w0 by (simp add: waiting_at_iff [of _ _ _ 2])
  have w3: "\<not> waiting_at ?w default_config ?s 3"
    using waiting_at_Suc [of ?w default_config ?s 2] by (simp add: numeral_3_eq_3)
  have l0: "connected_lines (snd ?s) = 0"
    by (simp add: main_loop_init_def connected_lines_def write_log_def call_def)
  have c: "DHT_isconnected ?w 5"
    by simp
  from connection_state_monotone [of ?w default_config ?s 3 4 2 2] w0 w2 w3 l0 c
  show ?thesis by auto
qed

end
